theory Spec2Isabelle
  imports Complex_Main
begin

section \<open>JavaScript strings and numbers\<close>

text \<open>
  Strings are lists of 8-bit characters: the Latin-1 range of JavaScript's UTF-16 code
  units. \<open>isWhiteSpace\<close> is the set that \<^verbatim>\<open>String.prototype.trim\<close> strips and that
  \<^verbatim>\<open>\s\<close> matches (WhiteSpace and LineTerminator of ECMAScript), restricted to that range:
  TAB, LF, VT, FF, CR, SPACE and NBSP.
\<close>

definition isWhiteSpace :: "char \<Rightarrow> bool" where
  "isWhiteSpace c = (c \<in> set [CHR 0x09, CHR 0x0A, CHR 0x0B, CHR 0x0C, CHR 0x0D, CHR 0x20, CHR 0xA0])"

definition isDigit :: "char \<Rightarrow> bool" where
  "isDigit c = (c \<in> set ''0123456789'')"

definition isNonZeroDigit :: "char \<Rightarrow> bool" where
  "isNonZeroDigit c = (c \<in> set ''123456789'')"

definition isLetter :: "char \<Rightarrow> bool" where
  "isLetter c = (c \<in> set ''abcdefghijklmnopqrstuvwxyzABCDEFGHIJKLMNOPQRSTUVWXYZ'')"

text \<open>\<^verbatim>\<open>\w\<close> without the unicode flag: ASCII letters, digits and the underscore.\<close>

definition isWordChar :: "char \<Rightarrow> bool" where
  "isWordChar c = (isLetter c \<or> isDigit c \<or> c = CHR ''_'')"

text \<open>\<^verbatim>\<open>.\<close> without the dotAll flag: anything but a line terminator.\<close>

definition isDot :: "char \<Rightarrow> bool" where
  "isDot c = (c \<noteq> CHR 0x0A \<and> c \<noteq> CHR 0x0D)"

definition trim :: "string \<Rightarrow> string" where
  "trim s = rev (dropWhile isWhiteSpace (rev (dropWhile isWhiteSpace s)))"

definition digitVal :: "char \<Rightarrow> nat" where
  "digitVal c = of_char c - 48"

definition digitsVal :: "string \<Rightarrow> nat" where
  "digitsVal ds = foldl (\<lambda>acc c. 10 * acc + digitVal c) 0 ds"

text \<open>
  A JavaScript number is modelled by the real number that its decimal rendering denotes;
  \<open>None\<close> is NaN. \<open>parseFloat\<close> skips leading white space, reads an optional sign, the
  integer digits and an optional fraction, and ignores what follows; with no digit at all
  the result is NaN. Exponents and \<^verbatim>\<open>Infinity\<close> are not modelled: the validators call
  \<^verbatim>\<open>parseFloat\<close> only on strings that passed a digits-and-dot pattern.

  Rounding to the nearest double is monotone and \<open>1000000\<close> is a double, so for a decimal
  \<open>d\<close> with at most two fraction digits the comparison of the doubles of \<open>d\<close> and
  \<open>999999.99\<close> agrees with the comparison of the exact values, and likewise against \<open>0\<close>.
\<close>

definition parseFloat :: "string \<Rightarrow> real option" where
  "parseFloat s =
     (let t = dropWhile isWhiteSpace s;
          neg = (case t of c # _ \<Rightarrow> c = CHR ''-'' | [] \<Rightarrow> False);
          u = (case t of c # r \<Rightarrow> (if c = CHR ''-'' \<or> c = CHR ''+'' then r else t) | [] \<Rightarrow> t);
          ip = takeWhile isDigit u;
          rest = dropWhile isDigit u;
          fp = (case rest of c # r \<Rightarrow> (if c = CHR ''.'' then takeWhile isDigit r else []) | [] \<Rightarrow> [])
      in if ip = [] \<and> fp = [] then None
         else Some ((if neg then - 1 else 1) *
                    (of_nat (digitsVal ip) + of_nat (digitsVal fp) / 10 ^ length fp)))"

text \<open>Comparisons of a possibly-NaN number with a finite one: false on NaN.\<close>

definition num_lt :: "real option \<Rightarrow> real \<Rightarrow> bool" where
  "num_lt x b = (case x of None \<Rightarrow> False | Some a \<Rightarrow> a < b)"

definition num_gt :: "real option \<Rightarrow> real \<Rightarrow> bool" where
  "num_gt x b = (case x of None \<Rightarrow> False | Some a \<Rightarrow> a > b)"

section \<open>Regular expressions of the validators\<close>

text \<open>
  The anchored patterns of \<^verbatim>\<open>PATTERNS\<close> use only concatenation, alternation, repetition
  and character classes, so \<^verbatim>\<open>pattern.test(s)\<close> holds exactly when \<open>s\<close> is in the
  pattern's language. The patterns are written as regular expressions over character
  classes and matched with derivatives.
\<close>

datatype rexp =
    Zero
  | One
  | Atom "char \<Rightarrow> bool"
  | Alt rexp rexp
  | Seq rexp rexp
  | Star rexp

definition Chr :: "char \<Rightarrow> rexp" where
  "Chr c = Atom (\<lambda>x. x = c)"

definition Opt :: "rexp \<Rightarrow> rexp" where
  "Opt r = Alt r One"


fun nullable :: "rexp \<Rightarrow> bool" where
  "nullable Zero = False"
| "nullable One = True"
| "nullable (Atom P) = False"
| "nullable (Alt r s) = (nullable r \<or> nullable s)"
| "nullable (Seq r s) = (nullable r \<and> nullable s)"
| "nullable (Star r) = True"

fun deriv :: "char \<Rightarrow> rexp \<Rightarrow> rexp" where
  "deriv c Zero = Zero"
| "deriv c One = Zero"
| "deriv c (Atom P) = (if P c then One else Zero)"
| "deriv c (Alt r s) = Alt (deriv c r) (deriv c s)"
| "deriv c (Seq r s) =
     (if nullable r then Alt (Seq (deriv c r) s) (deriv c s) else Seq (deriv c r) s)"
| "deriv c (Star r) = Seq (deriv c r) (Star r)"

fun matches :: "rexp \<Rightarrow> string \<Rightarrow> bool" where
  "matches r [] = nullable r"
| "matches r (c # s) = matches (deriv c r) s"

text \<open>An unanchored \<^verbatim>\<open>test\<close>: the pattern occurs somewhere in the string.\<close>

definition occurs :: "rexp \<Rightarrow> string \<Rightarrow> bool" where
  "occurs r s = matches (Seq (Star (Atom (\<lambda>_. True))) (Seq r (Star (Atom (\<lambda>_. True))))) s"

text \<open>The language of a pattern, for the proofs.\<close>

definition conc :: "string set \<Rightarrow> string set \<Rightarrow> string set" where
  "conc A B = {u @ v | u v. u \<in> A \<and> v \<in> B}"

inductive_set star :: "string set \<Rightarrow> string set" for A :: "string set" where
  star_nil: "[] \<in> star A"
| star_app: "u \<in> A \<Longrightarrow> v \<in> star A \<Longrightarrow> u @ v \<in> star A"

fun lang :: "rexp \<Rightarrow> string set" where
  "lang Zero = {}"
| "lang One = {[]}"
| "lang (Atom P) = {[c] | c. P c}"
| "lang (Alt r s) = lang r \<union> lang s"
| "lang (Seq r s) = conc (lang r) (lang s)"
| "lang (Star r) = star (lang r)"

section \<open>Validators (validators.js)\<close>

text \<open>
  The results \<^verbatim>\<open>{valid, error}\<close> of the validators, \<^verbatim>\<open>{valid, error, data}\<close> of the
  import and \<^verbatim>\<open>{regex, error}\<close> of the search compiler share the field \<open>error\<close>
  (\<open>None\<close> is \<^verbatim>\<open>null\<close>).
\<close>

record outcome =
  error :: "string option"

record validation = outcome +
  valid :: bool

definition ok :: validation where
  "ok = \<lparr>error = None, valid = True\<rparr>"

definition fail :: "string \<Rightarrow> validation" where
  "fail msg = \<lparr>error = Some msg, valid = False\<rparr>"

text \<open>\<^verbatim>\<open>amount: /^(0|[1-9]\d*)(\.\d{1,2})?$/\<close>\<close>

definition PATTERNS_amount :: rexp where
  "PATTERNS_amount =
     Seq (Alt (Chr CHR ''0'') (Seq (Atom isNonZeroDigit) (Star (Atom isDigit))))
         (Opt (Seq (Chr CHR ''.'') (Seq (Atom isDigit) (Opt (Atom isDigit)))))"

definition validateAmount :: "string \<Rightarrow> validation" where
  "validateAmount v =
     (if v = [] \<or> trim v = [] then fail ''Amount is required''
      else let trimmed = trim v in
        if \<not> matches PATTERNS_amount trimmed
        then fail ''Invalid amount format. Use numbers with up to 2 decimal places (e.g., 12.50)''
        else let numValue = parseFloat trimmed in
          if num_lt numValue 0 then fail ''Amount cannot be negative''
          else if num_gt numValue (99999999 / 100) then fail ''Amount cannot exceed 999,999.99''
          else ok)"

text \<open>
  The shape as the specification words it: zero, or an integer with a non-zero leading
  digit, optionally followed by a dot and one or two decimal digits.
\<close>

definition integer_part :: "string \<Rightarrow> bool" where
  "integer_part ip = (ip = ''0'' \<or> (ip \<noteq> [] \<and> list_all isDigit ip \<and> hd ip \<noteq> CHR ''0''))"

definition amount_shape :: "string \<Rightarrow> bool" where
  "amount_shape s =
     (let ip = takeWhile (\<lambda>c. c \<noteq> CHR ''.'') s;
          rest = dropWhile (\<lambda>c. c \<noteq> CHR ''.'') s
      in integer_part ip \<and>
         (rest = [] \<or> ((length (tl rest) = 1 \<or> length (tl rest) = 2) \<and> list_all isDigit (tl rest))))"

text \<open>The two parts of a string of the amount shape, for the proofs.\<close>

definition amount_parts :: "string \<Rightarrow> string \<Rightarrow> bool" where
  "amount_parts ip fp \<longleftrightarrow>
     (ip = ''0'' \<or> (\<exists>c ds. ip = c # ds \<and> isNonZeroDigit c \<and> list_all isDigit ds)) \<and>
     (fp = [] \<or> (\<exists>d1. isDigit d1 \<and> (fp = [CHR ''.'', d1] \<or> (\<exists>d2. isDigit d2 \<and> fp = [CHR ''.'', d1, d2]))))"

subsection \<open>validateDescription\<close>

text \<open>
  \<^verbatim>\<open>duplicateWord: /\b(\w+)\s+\1\b/gi\<close> has a back-reference, so it is matched by a
  search of its own. \<open>canonicalize\<close> is the case folding of the \<^verbatim>\<open>i\<close> flag (upper-casing)
  on ASCII letters; a character outside ASCII never folds to an ASCII one, and the group
  captures ASCII word characters only, so other characters are left as they are.
  \<open>wordBoundary s i\<close> is \<^verbatim>\<open>\b\<close> at position \<open>i\<close>. \<open>duplicateWordAt s i\<close> tries the
  pattern at position \<open>i\<close> as the backtracking engine does: each length \<open>k\<close> of the
  group, longest first, and for each the lengths \<open>j\<close> of the white space, longest
  first; it returns the length of the match.
\<close>

definition canonicalize :: "char \<Rightarrow> char" where
  "canonicalize c =
     (case map_of (zip ''abcdefghijklmnopqrstuvwxyz'' ''ABCDEFGHIJKLMNOPQRSTUVWXYZ'') c of
        Some u \<Rightarrow> u
      | None \<Rightarrow> c)"

definition wordBoundary :: "string \<Rightarrow> nat \<Rightarrow> bool" where
  "wordBoundary s i =
     ((0 < i \<and> isWordChar (s ! (i - 1))) \<noteq> (i < length s \<and> isWordChar (s ! i)))"

definition duplicateWordAt :: "string \<Rightarrow> nat \<Rightarrow> nat option" where
  "duplicateWordAt s i =
     (if \<not> wordBoundary s i then None
      else map_option (\<lambda>(k, j). k + j + k)
        (List.find
          (\<lambda>(k, j).
             length (take k (drop i s)) = k \<and> list_all isWordChar (take k (drop i s)) \<and>
             length (take j (drop (i + k) s)) = j \<and> list_all isWhiteSpace (take j (drop (i + k) s)) \<and>
             map canonicalize (take k (drop (i + k + j) s)) = map canonicalize (take k (drop i s)) \<and>
             wordBoundary s (i + k + j + k))
          (concat (map (\<lambda>k. map (\<lambda>j. (k, j)) (rev [1 ..< Suc (length s - i)]))
                       (rev [1 ..< Suc (length s - i)])))))"

text \<open>
  \<^verbatim>\<open>value.match(PATTERNS.duplicateWord)\<close>: the text of the leftmost match (element 0 of
  the array of all matches), or \<open>None\<close> for \<^verbatim>\<open>null\<close>.
\<close>

definition duplicateWord_match :: "string \<Rightarrow> string option" where
  "duplicateWord_match s =
     (case List.find (\<lambda>i. duplicateWordAt s i \<noteq> None) [0 ..< Suc (length s)] of
        None \<Rightarrow> None
      | Some i \<Rightarrow> map_option (\<lambda>n. take n (drop i s)) (duplicateWordAt s i))"

text \<open>\<^verbatim>\<open>description: /^\S(?:.*\S)?$/\<close>; the third test of \<open>validateDescription\<close> is \<^verbatim>\<open>/\s{2,}/\<close>.\<close>

definition PATTERNS_description :: rexp where
  "PATTERNS_description =
     Seq (Atom (\<lambda>c. \<not> isWhiteSpace c))
         (Opt (Seq (Star (Atom isDot)) (Atom (\<lambda>c. \<not> isWhiteSpace c))))"

definition validateDescription :: "string \<Rightarrow> validation" where
  "validateDescription v =
     (if v = [] \<or> trim v = [] then fail ''Description is required''
      else if v \<noteq> trim v then fail ''Description cannot have leading or trailing spaces''
      else if occurs (Seq (Atom isWhiteSpace) (Seq (Atom isWhiteSpace) (Star (Atom isWhiteSpace)))) v
        then fail ''Description cannot have consecutive spaces''
      else if length v < 2 then fail ''Description must be at least 2 characters''
      else if length v > 200 then fail ''Description cannot exceed 200 characters''
      else (case duplicateWord_match v of
          Some m \<Rightarrow>
            fail (''Duplicate word detected: '' @ [CHR 0x22] @ m @ [CHR 0x22] @ ''. Please rephrase.'')
        | None \<Rightarrow>
            if \<not> matches PATTERNS_description v then fail ''Invalid description format'' else ok))"

subsection \<open>Numbers and JSON values as strings\<close>

definition digitChar :: "nat \<Rightarrow> char" where
  "digitChar n = ''0123456789'' ! n"

fun string_of_nat :: "nat \<Rightarrow> string" where
  "string_of_nat n =
     (if n < 10 then [digitChar n] else string_of_nat (n div 10) @ [digitChar (n mod 10)])"

declare string_of_nat.simps [simp del]

fun fracDigits :: "nat \<Rightarrow> real \<Rightarrow> string" where
  "fracDigits n f =
     (if n = 0 \<or> f = 0 then []
      else digitChar (nat \<lfloor>f * 10\<rfloor>) # fracDigits (n - 1) (f * 10 - of_int \<lfloor>f * 10\<rfloor>))"

declare fracDigits.simps [simp del]

text \<open>
  \<^verbatim>\<open>String(n)\<close> for a number, which is modelled by the real that its shortest decimal
  rendering denotes. Zero and the magnitudes from \<open>10\<^sup>-\<^sup>6\<close> up to \<open>10\<^sup>2\<^sup>1\<close> print in fixed
  notation: sign, integer digits, and the fraction digits. The magnitudes from \<open>10\<^sup>2\<^sup>1\<close> on
  and those below \<open>10\<^sup>-\<^sup>6\<close> print in exponent notation: the first digit, the other digits
  after a point when there are any, and \<^verbatim>\<open>e+\<close> or \<^verbatim>\<open>e-\<close> with the exponent.
\<close>

definition mantissa :: "string \<Rightarrow> string" where
  "mantissa ds = (case ds of [] \<Rightarrow> [] | d # rest \<Rightarrow> if rest = [] then [d] else d # CHR ''.'' # rest)"

text \<open>
  The exponent of a magnitude below 1 and the magnitude scaled into the interval from 1 to
  10. The smallest number is above \<open>10\<^sup>-\<^sup>3\<^sup>2\<^sup>4\<close>, so 400 rounds are enough.
\<close>

fun scaleUp :: "nat \<Rightarrow> real \<Rightarrow> nat \<Rightarrow> nat \<times> real" where
  "scaleUp 0 x k = (k, x)"
| "scaleUp (Suc fuel) x k = (if 1 \<le> x then (k, x) else scaleUp fuel (x * 10) (k + 1))"

definition numberToString :: "real \<Rightarrow> string" where
  "numberToString r =
     (if r < 0 then ''-'' else []) @
     (if 10 ^ 21 \<le> \<bar>r\<bar>
      then (let s = string_of_nat (nat \<lfloor>\<bar>r\<bar>\<rfloor>) in
              mantissa (rev (dropWhile (\<lambda>c. c = CHR ''0'') (rev s))) @ ''e+'' @
              string_of_nat (length s - 1))
      else if 0 < \<bar>r\<bar> \<and> \<bar>r\<bar> < 1 / 10 ^ 6
      then (case scaleUp 400 \<bar>r\<bar> 0 of (k, m) \<Rightarrow>
              mantissa (digitChar (nat \<lfloor>m\<rfloor>) # fracDigits 24 (m - of_int \<lfloor>m\<rfloor>)) @ ''e-'' @
              string_of_nat k)
      else string_of_nat (nat \<lfloor>\<bar>r\<bar>\<rfloor>) @
           (if \<bar>r\<bar> = of_int \<lfloor>\<bar>r\<bar>\<rfloor> then []
            else CHR ''.'' # fracDigits 24 (\<bar>r\<bar> - of_int \<lfloor>\<bar>r\<bar>\<rfloor>)))"

fun join :: "string \<Rightarrow> string list \<Rightarrow> string" where
  "join sep [] = []"
| "join sep [x] = x"
| "join sep (x # y # ys) = x @ sep @ join sep (y # ys)"

text \<open>
  A value as \<^verbatim>\<open>JSON.parse\<close> returns it. An object is the list of its keys, each once,
  with their values.
\<close>

datatype json =
    JNull
  | JBool bool
  | JNum real
  | JStr string
  | JArr "json list"
  | JObj "(string \<times> json) list"



subsection \<open>validateDate, validateCategory\<close>

text \<open>\<^verbatim>\<open>date: /^\d{4}-(0[1-9]|1[0-2])-(0[1-9]|[12]\d|3[01])$/\<close>\<close>

fun seqs :: "rexp list \<Rightarrow> rexp" where
  "seqs [] = One"
| "seqs [r] = r"
| "seqs (r # rs) = Seq r (seqs rs)"

definition PATTERNS_date :: rexp where
  "PATTERNS_date =
     seqs [Atom isDigit, Atom isDigit, Atom isDigit, Atom isDigit,
           Chr CHR ''-'',
           Alt (Seq (Chr CHR ''0'') (Atom isNonZeroDigit))
               (Seq (Chr CHR ''1'') (Atom (\<lambda>c. c \<in> set ''012''))),
           Chr CHR ''-'',
           Alt (Seq (Chr CHR ''0'') (Atom isNonZeroDigit))
               (Alt (Seq (Atom (\<lambda>c. c \<in> set ''12'')) (Atom isDigit))
                    (Seq (Chr CHR ''3'') (Atom (\<lambda>c. c \<in> set ''01''))))]"







subsection \<open>validateTransaction\<close>

text \<open>
  The object \<^verbatim>\<open>{description, amount, date, category}\<close>. The amount is a string where the
  object is validated (\<^verbatim>\<open>String(transaction.amount)\<close>) and a number where it is stored.
\<close>

record 'n fields =
  description :: string
  amount :: 'n
  date :: string
  category :: string



subsection \<open>Stored transactions\<close>

text \<open>
  A stored transaction. The import keeps whatever truthy value an item carries as
  \<^verbatim>\<open>id\<close>, \<^verbatim>\<open>createdAt\<close> and \<^verbatim>\<open>updatedAt\<close>, so these three are JSON values; the
  other fields are coerced to strings and a number. Amounts are finite numbers; they are
  compared as the reals they are and added by the addition of the host.
\<close>

record transaction = "real fields" +
  id' :: json
  createdAt :: json
  updatedAt :: json

subsection \<open>Regular expression objects and the host\<close>

text \<open>
  A \<^verbatim>\<open>RegExp\<close> object made from a user's pattern. Its compiled pattern is a function of
  the engine: \<open>matchAt r s p\<close> is the length of the match that an attempt anchored at
  position \<open>p\<close> of \<open>s\<close> finds, if it finds one (the \<^verbatim>\<open>i\<close> flag is part of it). The
  object carries the \<^verbatim>\<open>g\<close> flag and the mutable \<^verbatim>\<open>lastIndex\<close>.
\<close>

record regexp =
  matchAt :: "string \<Rightarrow> nat \<Rightarrow> nat option"
  global :: bool
  lastIndex :: nat

text \<open>
  \<^verbatim>\<open>RegExpBuiltinExec\<close> of ECMAScript for a pattern without the sticky flag: the search
  starts at \<^verbatim>\<open>lastIndex\<close> when the pattern is global and at 0 otherwise, and tries every
  position up to the length of the string. A global pattern leaves \<^verbatim>\<open>lastIndex\<close> at the
  end of the match, or at 0 when there is none. The result is the position and length of
  the match.
\<close>

definition regExpExec :: "regexp \<Rightarrow> string \<Rightarrow> (nat \<times> nat) option \<times> regexp" where
  "regExpExec r s =
     (case List.find (\<lambda>p. matchAt r s p \<noteq> None)
             [(if global r then lastIndex r else 0) ..< Suc (length s)] of
        None \<Rightarrow> (None, if global r then r\<lparr>lastIndex := 0\<rparr> else r)
      | Some p \<Rightarrow>
          (case matchAt r s p of
             None \<Rightarrow> (None, if global r then r\<lparr>lastIndex := 0\<rparr> else r)
           | Some n \<Rightarrow> (Some (p, n), if global r then r\<lparr>lastIndex := p + n\<rparr> else r)))"

text \<open>\<^verbatim>\<open>new RegExp(pattern, flags)\<close>: the object, with \<^verbatim>\<open>lastIndex\<close> 0, or the message thrown.\<close>

definition newRegExp ::
  "(string \<Rightarrow> string \<Rightarrow> string + (string \<Rightarrow> nat \<Rightarrow> nat option)) \<Rightarrow> string \<Rightarrow> string \<Rightarrow> string + regexp" where
  "newRegExp compile pattern flags =
     (case compile pattern flags of
        Inl message \<Rightarrow> Inl message
      | Inr m \<Rightarrow> Inr \<lparr>matchAt = m, global = (CHR ''g'' \<in> set flags), lastIndex = 0\<rparr>)"

text \<open>\<^verbatim>\<open>regex.test(s)\<close>\<close>

definition test :: "regexp \<Rightarrow> string \<Rightarrow> bool \<times> regexp" where
  "test r s = (case regExpExec r s of (m, r') \<Rightarrow> (m \<noteq> None, r'))"

text \<open>
  What the host supplies: the current year; the values returned by the calls of
  \<^verbatim>\<open>generateId()\<close> and \<^verbatim>\<open>new Date().toISOString()\<close>, numbered by the call; the
  engine's compilation of a pattern with its flags, which gives the compiled pattern or the
  message of the SyntaxError that \<^verbatim>\<open>new RegExp\<close> throws; the milliseconds that
  \<^verbatim>\<open>performance.now()\<close> measures around the probe of such a pattern;
  \<^verbatim>\<open>new Date(s)\<close> as a time value (\<open>None\<close> is NaN); \<^verbatim>\<open>localeCompare\<close>; and the
  addition of two numbers, which rounds the sum to a floating-point number.
\<close>

record host =
  currentYear :: nat
  generateId :: "nat \<Rightarrow> string"
  toISOString :: "nat \<Rightarrow> string"
  compilePattern :: "string \<Rightarrow> string \<Rightarrow> string + (string \<Rightarrow> nat \<Rightarrow> nat option)"
  probeTime :: "string \<Rightarrow> string \<Rightarrow> real"
  dateValue :: "string \<Rightarrow> real option"
  localeCompare :: "string \<Rightarrow> string \<Rightarrow> real"
  numberAdd :: "real \<Rightarrow> real \<Rightarrow> real"

subsection \<open>validateImportData\<close>












section \<open>Storage (storage.js)\<close>

text \<open>
  \<^verbatim>\<open>localStorage\<close>: the three items, each absent (\<open>None\<close>) or the value that
  \<^verbatim>\<open>JSON.stringify\<close> wrote, which \<^verbatim>\<open>JSON.parse\<close> gives back. \<open>writable\<close> is false when
  \<^verbatim>\<open>setItem\<close> throws (quota exceeded, storage disabled); \<^verbatim>\<open>getItem\<close> and
  \<^verbatim>\<open>removeItem\<close> do not throw.
\<close>

record settings =
  baseCurrency :: string
  displayCurrency :: string
  exchangeRates :: "(string \<times> real) list"
  budgetCap :: real

record storage =
  transactionsItem :: "transaction list option"
  settingsItem :: "settings option"
  categoriesItem :: "string list option"
  writable :: bool

definition DEFAULT_CATEGORIES :: "string list" where
  "DEFAULT_CATEGORIES = [''Food'', ''Books'', ''Transport'', ''Entertainment'', ''Fees'', ''Other'']"

definition DEFAULT_SETTINGS :: settings where
  "DEFAULT_SETTINGS =
     \<lparr>baseCurrency = ''USD'', displayCurrency = ''USD'',
      exchangeRates = [(''EUR'', 108 / 100), (''RWF'', 73 / 100000)], budgetCap = 0\<rparr>"

definition loadTransactions :: "storage \<Rightarrow> transaction list" where
  "loadTransactions sto = (case transactionsItem sto of None \<Rightarrow> [] | Some ts \<Rightarrow> ts)"

text \<open>The result is the success status: false when \<^verbatim>\<open>setItem\<close> threw.\<close>

definition saveTransactions :: "storage \<Rightarrow> transaction list \<Rightarrow> bool \<times> storage" where
  "saveTransactions sto ts =
     (if writable sto then (True, sto\<lparr>transactionsItem := Some ts\<rparr>) else (False, sto))"

text \<open>
  \<open>storage_addTransaction\<close> is \<^verbatim>\<open>addTransaction\<close> of storage.js. Nothing in its
  \<^verbatim>\<open>try\<close> block throws, since \<open>saveTransactions\<close> catches the failure of the write itself,
  and the status that \<open>saveTransactions\<close> returns is dropped.
\<close>

definition storage_addTransaction ::
  "host \<Rightarrow> storage \<Rightarrow> real fields \<Rightarrow> transaction option \<times> storage" where
  "storage_addTransaction h sto t =
     (let transactions = loadTransactions sto;
          newTransaction =
            \<lparr>description = description t, amount = amount t, date = date t, category = category t,
             id' = JStr (generateId h 0),
             createdAt = JStr (toISOString h 0),
             updatedAt = JStr (toISOString h 1)\<rparr>
      in case saveTransactions sto (transactions @ [newTransaction]) of
           (saved, sto') \<Rightarrow> (Some newTransaction, sto'))"

text \<open>The \<^verbatim>\<open>updates\<close> object: each field present or not.\<close>

record updates =
  u_description :: "string option"
  u_amount :: "real option"
  u_date :: "string option"
  u_category :: "string option"
  u_id :: "json option"
  u_createdAt :: "json option"
  u_updatedAt :: "json option"

definition pick :: "'a option \<Rightarrow> 'a \<Rightarrow> 'a" where
  "pick u old = (case u of None \<Rightarrow> old | Some v \<Rightarrow> v)"

text \<open>\<^verbatim>\<open>{...old, ...updates, updatedAt: now}\<close>\<close>

definition mergeUpdates :: "transaction \<Rightarrow> updates \<Rightarrow> json \<Rightarrow> transaction" where
  "mergeUpdates old u now =
     \<lparr>description = pick (u_description u) (description old),
      amount = pick (u_amount u) (amount old),
      date = pick (u_date u) (date old),
      category = pick (u_category u) (category old),
      id' = pick (u_id u) (id' old),
      createdAt = pick (u_createdAt u) (createdAt old),
      updatedAt = now\<rparr>"

fun findIndex :: "('a \<Rightarrow> bool) \<Rightarrow> 'a list \<Rightarrow> nat option" where
  "findIndex P [] = None"
| "findIndex P (x # xs) = (if P x then Some 0 else map_option Suc (findIndex P xs))"

definition storage_updateTransaction ::
  "host \<Rightarrow> storage \<Rightarrow> string \<Rightarrow> updates \<Rightarrow> transaction option \<times> storage" where
  "storage_updateTransaction h sto i u =
     (let transactions = loadTransactions sto in
      case findIndex (\<lambda>t. id' t = JStr i) transactions of
        None \<Rightarrow> (None, sto)
      | Some index \<Rightarrow>
          (let updatedTransaction = mergeUpdates (transactions ! index) u (JStr (toISOString h 0))
           in case saveTransactions sto (transactions[index := updatedTransaction]) of
                (saved, sto') \<Rightarrow> (Some updatedTransaction, sto')))"

definition storage_deleteTransaction :: "storage \<Rightarrow> string \<Rightarrow> bool \<times> storage" where
  "storage_deleteTransaction sto i =
     (let transactions = loadTransactions sto;
          filtered = filter (\<lambda>t. id' t \<noteq> JStr i) transactions
      in if length filtered = length transactions then (False, sto)
         else case saveTransactions sto filtered of (saved, sto') \<Rightarrow> (True, sto'))"

definition storage_clearTransactions :: "storage \<Rightarrow> bool \<times> storage" where
  "storage_clearTransactions sto = (True, sto\<lparr>transactionsItem := None\<rparr>)"

definition storage_importTransactions :: "storage \<Rightarrow> transaction list \<Rightarrow> bool \<times> storage" where
  "storage_importTransactions sto ts =
     (case saveTransactions sto ts of (saved, sto') \<Rightarrow> (True, sto'))"

definition saveCategories :: "storage \<Rightarrow> string list \<Rightarrow> bool \<times> storage" where
  "saveCategories sto cs =
     (if writable sto then (True, sto\<lparr>categoriesItem := Some cs\<rparr>) else (False, sto))"

definition loadCategories :: "storage \<Rightarrow> string list \<times> storage" where
  "loadCategories sto =
     (case categoriesItem sto of
        None \<Rightarrow> (case saveCategories sto DEFAULT_CATEGORIES of (saved, sto') \<Rightarrow> (DEFAULT_CATEGORIES, sto'))
      | Some cs \<Rightarrow> (cs, sto))"

text \<open>
  \<^verbatim>\<open>toLowerCase\<close> on the characters of a string of 8-bit characters: the ASCII capitals,
  and the capitals of Latin-1 from \<open>0xC0\<close> to \<open>0xDE\<close> without the multiplication sign
  \<open>0xD7\<close>, move up by \<open>0x20\<close>; other characters are left as they are.
\<close>

definition toLowerCase :: "string \<Rightarrow> string" where
  "toLowerCase s =
     map (\<lambda>c. let n = (of_char c :: nat) in
                if (65 \<le> n \<and> n \<le> 90) \<or> (192 \<le> n \<and> n \<le> 222 \<and> n \<noteq> 215)
                then char_of (n + 32) else c) s"

definition storage_addCategory :: "storage \<Rightarrow> string \<Rightarrow> bool \<times> storage" where
  "storage_addCategory sto c =
     (case loadCategories sto of (categories, sto1) \<Rightarrow>
        (let normalized = trim c in
         if list_ex (\<lambda>x. toLowerCase x = toLowerCase normalized) categories then (False, sto1)
         else case saveCategories sto1 (categories @ [normalized]) of (saved, sto2) \<Rightarrow> (True, sto2)))"

definition storage_removeCategory :: "storage \<Rightarrow> string \<Rightarrow> bool \<times> storage" where
  "storage_removeCategory sto c =
     (case loadCategories sto of (categories, sto1) \<Rightarrow>
        (let filtered = filter (\<lambda>x. x \<noteq> c) categories in
         if length filtered = length categories then (False, sto1)
         else case saveCategories sto1 filtered of (saved, sto2) \<Rightarrow> (True, sto2)))"

section \<open>State container (state.js)\<close>

record ui =
  currentSection :: string
  searchQuery :: string
  searchRegex :: "regexp option"
  sortBy :: string
  categoryFilter :: string
  editingId :: "string option"
  isLoading :: bool

record state =
  transactions :: "transaction list"
  categories :: "string list"
  settings :: settings
  ui :: ui

text \<open>
  A mutator takes the state and the storage and returns its result with both. The
  subscribers it notifies receive copies and change neither.
\<close>

definition state_addTransaction ::
  "host \<Rightarrow> state \<Rightarrow> storage \<Rightarrow> real fields \<Rightarrow> transaction option \<times> state \<times> storage" where
  "state_addTransaction h s sto transactionData =
     (case storage_addTransaction h sto transactionData of
        (Some newTransaction, sto') \<Rightarrow>
          (Some newTransaction, s\<lparr>transactions := transactions s @ [newTransaction]\<rparr>, sto')
      | (None, sto') \<Rightarrow> (None, s, sto'))"

definition state_updateTransaction ::
  "host \<Rightarrow> state \<Rightarrow> storage \<Rightarrow> string \<Rightarrow> updates \<Rightarrow> transaction option \<times> state \<times> storage" where
  "state_updateTransaction h s sto i u =
     (case storage_updateTransaction h sto i u of
        (Some updated, sto') \<Rightarrow>
          (case findIndex (\<lambda>t. id' t = JStr i) (transactions s) of
             Some index \<Rightarrow> (Some updated, s\<lparr>transactions := (transactions s)[index := updated]\<rparr>, sto')
           | None \<Rightarrow> (Some updated, s, sto'))
      | (None, sto') \<Rightarrow> (None, s, sto'))"

definition state_deleteTransaction :: "state \<Rightarrow> storage \<Rightarrow> string \<Rightarrow> bool \<times> state \<times> storage" where
  "state_deleteTransaction s sto i =
     (case storage_deleteTransaction sto i of
        (True, sto') \<Rightarrow> (True, s\<lparr>transactions := filter (\<lambda>t. id' t \<noteq> JStr i) (transactions s)\<rparr>, sto')
      | (False, sto') \<Rightarrow> (False, s, sto'))"

definition state_importTransactions ::
  "state \<Rightarrow> storage \<Rightarrow> transaction list \<Rightarrow> bool \<times> state \<times> storage" where
  "state_importTransactions s sto ts =
     (case storage_importTransactions sto ts of
        (True, sto') \<Rightarrow> (True, s\<lparr>transactions := ts\<rparr>, sto')
      | (False, sto') \<Rightarrow> (False, s, sto'))"

definition clearAllTransactions :: "state \<Rightarrow> storage \<Rightarrow> bool \<times> state \<times> storage" where
  "clearAllTransactions s sto =
     (case storage_clearTransactions sto of
        (True, sto') \<Rightarrow> (True, s\<lparr>transactions := []\<rparr>, sto')
      | (False, sto') \<Rightarrow> (False, s, sto'))"

definition state_addCategory :: "state \<Rightarrow> storage \<Rightarrow> string \<Rightarrow> bool \<times> state \<times> storage" where
  "state_addCategory s sto c =
     (if list_ex (\<lambda>x. toLowerCase x = toLowerCase c) (categories s) then (False, s, sto)
      else case storage_addCategory sto c of
             (True, sto') \<Rightarrow> (True, s\<lparr>categories := categories s @ [c]\<rparr>, sto')
           | (False, sto') \<Rightarrow> (False, s, sto'))"

definition state_removeCategory :: "state \<Rightarrow> storage \<Rightarrow> string \<Rightarrow> bool \<times> state \<times> storage" where
  "state_removeCategory s sto c =
     (case storage_removeCategory sto c of
        (True, sto') \<Rightarrow> (True, s\<lparr>categories := filter (\<lambda>x. x \<noteq> c) (categories s)\<rparr>, sto')
      | (False, sto') \<Rightarrow> (False, s, sto'))"

subsection \<open>Settings (storage.js and state.js)\<close>

definition saveSettings :: "storage \<Rightarrow> settings \<Rightarrow> bool \<times> storage" where
  "saveSettings sto x =
     (if writable sto then (True, sto\<lparr>settingsItem := Some x\<rparr>) else (False, sto))"

definition loadSettings :: "storage \<Rightarrow> settings \<times> storage" where
  "loadSettings sto =
     (case settingsItem sto of
        None \<Rightarrow> (case saveSettings sto DEFAULT_SETTINGS of (saved, sto') \<Rightarrow> (DEFAULT_SETTINGS, sto'))
      | Some x \<Rightarrow> (x, sto))"

record settings_updates =
  u_baseCurrency :: "string option"
  u_displayCurrency :: "string option"
  u_exchangeRates :: "(string \<times> real) list option"
  u_budgetCap :: "real option"

definition storage_updateSettings :: "storage \<Rightarrow> settings_updates \<Rightarrow> settings \<times> storage" where
  "storage_updateSettings sto u =
     (case loadSettings sto of (old, sto1) \<Rightarrow>
        (let updatedSettings =
           \<lparr>baseCurrency = pick (u_baseCurrency u) (baseCurrency old),
            displayCurrency = pick (u_displayCurrency u) (displayCurrency old),
            exchangeRates = pick (u_exchangeRates u) (exchangeRates old),
            budgetCap = pick (u_budgetCap u) (budgetCap old)\<rparr>
         in case saveSettings sto1 updatedSettings of (saved, sto2) \<Rightarrow> (updatedSettings, sto2)))"

definition state_updateSettings :: "state \<Rightarrow> storage \<Rightarrow> settings_updates \<Rightarrow> state \<times> storage" where
  "state_updateSettings s sto u =
     (case storage_updateSettings sto u of (x, sto') \<Rightarrow> (s\<lparr>settings := x\<rparr>, sto'))"

subsection \<open>getTopCategory\<close>

text \<open>
  \<^verbatim>\<open>categoryTotals\<close> is a plain object used as a dictionary: a list of its own keys and
  their values in insertion order. A plain object inherits the members of
  \<^verbatim>\<open>Object.prototype\<close>, so \<^verbatim>\<open>categoryTotals[k]\<close> for a key \<open>k\<close> that the object does not
  own is \<^verbatim>\<open>undefined\<close> only when \<open>k\<close> is not the name of such a member. For the name of
  an inherited method it is the method, which is truthy, and \<^verbatim>\<open>+\<close> makes a text of it and
  the amount: a text that starts with the rendering of the method and does not read as a
  number. The assignment stores the text under \<open>k\<close> as an own key, and the later additions
  append to it. For \<^verbatim>\<open>__proto__\<close> the value read is the prototype, the sum is a text too,
  and the assignment calls the setter of \<^verbatim>\<open>__proto__\<close>, which ignores a text: the object
  gets no key.
\<close>

datatype total = Number real | Text

definition objectPrototypeMethods :: "string list" where
  "objectPrototypeMethods =
     [''constructor'', ''__defineGetter__'', ''__defineSetter__'', ''hasOwnProperty'',
      ''__lookupGetter__'', ''__lookupSetter__'', ''isPrototypeOf'', ''propertyIsEnumerable'',
      ''toString'', ''valueOf'', ''toLocaleString'']"

definition inheritedKey :: "string \<Rightarrow> bool" where
  "inheritedKey k = (k = ''__proto__'' \<or> k \<in> set objectPrototypeMethods)"

fun setKey :: "(string \<times> 'v) list \<Rightarrow> string \<Rightarrow> 'v \<Rightarrow> (string \<times> 'v) list" where
  "setKey [] k v = [(k, v)]"
| "setKey ((k', v') # m) k v = (if k' = k then (k, v) # m else (k', v') # setKey m k v)"

text \<open>
  \<^verbatim>\<open>categoryTotals[k] = (categoryTotals[k] || 0) + a\<close> with the addition \<open>add\<close> of numbers.
  A total that is 0 is replaced by 0.
\<close>

definition addAmount ::
  "(real \<Rightarrow> real \<Rightarrow> real) \<Rightarrow> (string \<times> total) list \<Rightarrow> string \<Rightarrow> real \<Rightarrow> (string \<times> total) list" where
  "addAmount add m k a =
     (if k = ''__proto__'' then m
      else setKey m k
        (case map_of m k of
           Some (Number v) \<Rightarrow> Number (add v a)
         | Some Text \<Rightarrow> Text
         | None \<Rightarrow> if k \<in> set objectPrototypeMethods then Text else Number (add 0 a)))"

text \<open>
  \<open>objectEntries\<close> is the order of \<^verbatim>\<open>Object.entries\<close>: the keys that are array indices
  first, in ascending numeric order, then the other keys in insertion order.
\<close>

definition isArrayIndex :: "string \<Rightarrow> bool" where
  "isArrayIndex k =
     ((k = ''0'' \<or> (k \<noteq> [] \<and> list_all isDigit k \<and> hd k \<noteq> CHR ''0'')) \<and> digitsVal k < 4294967295)"

definition objectEntries :: "(string \<times> 'v) list \<Rightarrow> (string \<times> 'v) list" where
  "objectEntries m =
     sort_key (\<lambda>(k, v). digitsVal k) (filter (\<lambda>(k, v). isArrayIndex k) m) @
     filter (\<lambda>(k, v). \<not> isArrayIndex k) m"

definition categoryTotals :: "host \<Rightarrow> transaction list \<Rightarrow> (string \<times> total) list" where
  "categoryTotals h ts = foldl (\<lambda>m t. addAmount (numberAdd h) m (category t) (amount t)) [] ts"

text \<open>
  The loop over the entries: the pair \<^verbatim>\<open>(topCategory, topAmount)\<close>; \<open>None\<close> is \<^verbatim>\<open>null\<close>.
  The comparison of a text with a number converts the text to NaN and is false.
\<close>

definition topOf :: "(string \<times> total) list \<Rightarrow> string option \<times> real" where
  "topOf es = foldl (\<lambda>(topCategory, topAmount) (c, v).
                       case v of
                         Number a \<Rightarrow> if a > topAmount then (Some c, a) else (topCategory, topAmount)
                       | Text \<Rightarrow> (topCategory, topAmount)) (None, 0) es"

text \<open>The result \<^verbatim>\<open>{category, amount}\<close> as a pair, or \<open>None\<close> for \<^verbatim>\<open>null\<close>.\<close>

definition getTopCategory :: "host \<Rightarrow> state \<Rightarrow> (string option \<times> real) option" where
  "getTopCategory h s =
     (if length (transactions s) = 0 then None
      else Some (topOf (objectEntries (categoryTotals h (transactions s)))))"

subsection \<open>getFilteredTransactions\<close>

text \<open>
  The callback of the search filter: four \<^verbatim>\<open>test\<close> calls on the one \<^verbatim>\<open>RegExp\<close> object of
  the state, joined by \<^verbatim>\<open>||\<close>, so a later call runs only when the earlier ones failed and
  each call starts from the \<^verbatim>\<open>lastIndex\<close> that the call before it left.
\<close>

definition searchCallback :: "regexp \<Rightarrow> transaction \<Rightarrow> bool \<times> regexp" where
  "searchCallback r t =
     (case test r (description t) of
        (True, r1) \<Rightarrow> (True, r1)
      | (False, r1) \<Rightarrow>
          (case test r1 (category t) of
             (True, r2) \<Rightarrow> (True, r2)
           | (False, r2) \<Rightarrow>
               (case test r2 (numberToString (amount t)) of
                  (True, r3) \<Rightarrow> (True, r3)
                | (False, r3) \<Rightarrow> test r3 (date t))))"

fun searchFilter :: "regexp \<Rightarrow> transaction list \<Rightarrow> transaction list \<times> regexp" where
  "searchFilter r [] = ([], r)"
| "searchFilter r (t # ts) =
     (case searchCallback r t of (keep, r') \<Rightarrow>
        (case searchFilter r' ts of (rest, r'') \<Rightarrow> (if keep then t # rest else rest, r'')))"

text \<open>
  \<open>sortTransactions\<close>: the comparator of the sort key, and \<^verbatim>\<open>Array.prototype.sort\<close> as a
  stable insertion sort, which is the result of the stable sort whenever the comparator is
  a consistent ordering. A comparator value that is NaN counts as 0.
\<close>

definition sortField :: "string \<Rightarrow> string" where
  "sortField sortKey = takeWhile (\<lambda>c. c \<noteq> CHR ''-'') sortKey"

definition sortDirection :: "string \<Rightarrow> string option" where
  "sortDirection sortKey =
     (case dropWhile (\<lambda>c. c \<noteq> CHR ''-'') sortKey of
        [] \<Rightarrow> None
      | c # r \<Rightarrow> Some (takeWhile (\<lambda>c. c \<noteq> CHR ''-'') r))"

definition comparator :: "host \<Rightarrow> string \<Rightarrow> transaction \<Rightarrow> transaction \<Rightarrow> real option" where
  "comparator h sortKey a b =
     (let multiplier = (if sortDirection sortKey = Some ''asc'' then 1 else - 1);
          comparison =
            (if sortField sortKey = ''date'' then
               (case (dateValue h (date a), dateValue h (date b)) of
                  (Some x, Some y) \<Rightarrow> Some (x - y)
                | _ \<Rightarrow> None)
             else if sortField sortKey = ''description'' then
               Some (localeCompare h (description a) (description b))
             else if sortField sortKey = ''amount'' then Some (amount a - amount b)
             else Some 0)
      in map_option (\<lambda>c. c * multiplier) comparison)"

fun insertSorted :: "('a \<Rightarrow> 'a \<Rightarrow> real option) \<Rightarrow> 'a \<Rightarrow> 'a list \<Rightarrow> 'a list" where
  "insertSorted cmp x [] = [x]"
| "insertSorted cmp x (y # ys) =
     (if num_gt (cmp x y) 0 then y # insertSorted cmp x ys else x # y # ys)"

definition sortTransactions :: "host \<Rightarrow> transaction list \<Rightarrow> string \<Rightarrow> transaction list" where
  "sortTransactions h ts sortKey = foldr (insertSorted (comparator h sortKey)) ts []"

text \<open>The result, and the state with the \<^verbatim>\<open>lastIndex\<close> that the search left in its \<^verbatim>\<open>RegExp\<close>.\<close>

definition getFilteredTransactions :: "host \<Rightarrow> state \<Rightarrow> transaction list \<times> state" where
  "getFilteredTransactions h s =
     (let filtered = transactions s;
          filtered1 = (if categoryFilter (ui s) \<noteq> []
                       then filter (\<lambda>t. category t = categoryFilter (ui s)) filtered
                       else filtered)
      in case searchRegex (ui s) of
           None \<Rightarrow> (sortTransactions h filtered1 (sortBy (ui s)), s)
         | Some r \<Rightarrow>
             (case searchFilter r filtered1 of (filtered2, r') \<Rightarrow>
                (sortTransactions h filtered2 (sortBy (ui s)),
                 s\<lparr>ui := (ui s)\<lparr>searchRegex := Some r'\<rparr>\<rparr>)))"

definition setSearchQuery :: "host \<Rightarrow> state \<Rightarrow> string \<Rightarrow> bool \<Rightarrow> validation \<times> state" where
  "setSearchQuery h s query caseInsensitive =
     (if query = [] \<or> trim query = []
      then (ok, s\<lparr>ui := (ui s)\<lparr>searchQuery := query, searchRegex := None\<rparr>\<rparr>)
      else case newRegExp (compilePattern h) query (if caseInsensitive then ''gi'' else ''g'') of
             Inr r \<Rightarrow> (ok, s\<lparr>ui := (ui s)\<lparr>searchQuery := query, searchRegex := Some r\<rparr>\<rparr>)
           | Inl message \<Rightarrow>
               (fail (''Invalid regex pattern: '' @ message),
                s\<lparr>ui := (ui s)\<lparr>searchQuery := query, searchRegex := None\<rparr>\<rparr>))"

section \<open>Search (search.js)\<close>

record compiled = outcome +
  regex :: "regexp option"

text \<open>
  \<open>compileRegex\<close>: the probe runs \<^verbatim>\<open>regex.test\<close> on a hundred \<open>a\<close>, which moves the
  \<^verbatim>\<open>lastIndex\<close> of a global pattern; the time it took is the host's.
\<close>

definition compileRegex :: "host \<Rightarrow> string \<Rightarrow> string \<Rightarrow> compiled" where
  "compileRegex h input flags =
     (if input = [] \<or> trim input = [] then \<lparr>error = None, regex = None\<rparr>
      else let pattern = trim input in
        case newRegExp (compilePattern h) pattern flags of
          Inl message \<Rightarrow> \<lparr>error = Some (''Invalid pattern: '' @ message), regex = None\<rparr>
        | Inr r \<Rightarrow>
            (let testString = replicate 100 CHR ''a'' in
             case test r testString of (found, r') \<Rightarrow>
               if probeTime h pattern flags > 100
               then \<lparr>error = Some ''Pattern is too complex and may cause performance issues'',
                     regex = None\<rparr>
               else \<lparr>error = None, regex = Some r'\<rparr>))"

text \<open>
  \<open>escapeHTML\<close> writes the text into a DOM text node and reads the element's
  \<^verbatim>\<open>innerHTML\<close>; the HTML serialisation of a text node replaces \<open>&\<close>, \<open><\<close>, \<open>>\<close> and
  the no-break space by their entities.
\<close>

definition escapeChar :: "char \<Rightarrow> string" where
  "escapeChar c =
     (if c = CHR ''&'' then ''&amp;''
      else if c = CHR 0xA0 then ''&nbsp;''
      else if c = CHR ''<'' then ''&lt;''
      else if c = CHR ''>'' then ''&gt;''
      else [c])"

definition escapeHTML :: "string \<Rightarrow> string" where
  "escapeHTML text = (if text = [] then [] else concat (map escapeChar text))"

text \<open>
  \<^verbatim>\<open>s.replace(regex, f)\<close> for a global pattern: the matches are found from left to right,
  each search starting where the match before it ended, and one position further after
  an empty match; \<open>pos\<close> is the end of the text already copied. Every match starts at or
  after \<open>pos\<close>.
\<close>

function replaceGlobal ::
  "(string \<Rightarrow> nat \<Rightarrow> nat option) \<Rightarrow> string \<Rightarrow> (string \<Rightarrow> string) \<Rightarrow> nat \<Rightarrow> nat \<Rightarrow> string" where
  "replaceGlobal m s f li pos =
     (case List.find (\<lambda>p. m s p \<noteq> None) [li ..< Suc (length s)] of
        None \<Rightarrow> drop pos s
      | Some p \<Rightarrow>
          (case m s p of
             None \<Rightarrow> drop pos s
           | Some n \<Rightarrow>
               take (p - pos) (drop pos s) @ f (take n (drop p s)) @
               replaceGlobal m s f (if n = 0 then p + 1 else p + n) (p + n)))"
  by pat_completeness auto
termination
proof (relation "measure (\<lambda>(m, s, f, li, pos). Suc (length s) - li)")
  show "wf (measure (\<lambda>(m, s, f, li, pos). Suc (length s) - li))" by simp
next
  fix m :: "string \<Rightarrow> nat \<Rightarrow> nat option" and s :: string and f :: "string \<Rightarrow> string"
    and li pos p n :: nat
  assume "List.find (\<lambda>p. m s p \<noteq> None) [li ..< Suc (length s)] = Some p"
  then have "p \<in> set [li ..< Suc (length s)]"
    unfolding find_Some_iff by (metis nth_mem)
  then have "li \<le> p" "p \<le> length s" by auto
  then show "((m, s, f, if n = 0 then p + 1 else p + n, p + n), (m, s, f, li, pos))
      \<in> measure (\<lambda>(m, s, f, li, pos). Suc (length s) - li)"
    by auto
qed

declare replaceGlobal.simps [simp del]

text \<open>
  \<^verbatim>\<open>s.replace(regex, f)\<close>: every match of a global pattern, after which \<^verbatim>\<open>lastIndex\<close> is
  0; the first match of a pattern that is not global, which leaves \<^verbatim>\<open>lastIndex\<close> alone.
\<close>

definition replace :: "string \<Rightarrow> regexp \<Rightarrow> (string \<Rightarrow> string) \<Rightarrow> string \<times> regexp" where
  "replace s r f =
     (if global r then (replaceGlobal (matchAt r) s f 0 0, r\<lparr>lastIndex := 0\<rparr>)
      else case regExpExec r s of
             (None, r') \<Rightarrow> (s, r')
           | (Some (p, n), r') \<Rightarrow> (take p s @ f (take n (drop p s)) @ drop (p + n) s, r'))"

definition highlight :: "string \<Rightarrow> regexp option \<Rightarrow> string \<times> regexp option" where
  "highlight text rx =
     (case rx of
        None \<Rightarrow> (escapeHTML text, None)
      | Some r \<Rightarrow>
          if text = [] then (escapeHTML text, Some r)
          else (let escaped = escapeHTML text in
                case replace escaped (r\<lparr>lastIndex := 0\<rparr>) (\<lambda>match. ''<mark>'' @ match @ ''</mark>'') of
                  (highlighted, r') \<Rightarrow> (highlighted, Some r')))"

text \<open>\<open>matchesSearch\<close> and \<open>filterBySearch\<close> reset \<^verbatim>\<open>lastIndex\<close> before every \<^verbatim>\<open>test\<close>.\<close>

definition matchesSearch :: "transaction \<Rightarrow> regexp option \<Rightarrow> bool \<times> regexp option" where
  "matchesSearch t rx =
     (case rx of
        None \<Rightarrow> (True, None)
      | Some r \<Rightarrow>
          (let searchableText =
             join '' '' [description t, category t, numberToString (amount t), date t]
           in case test (r\<lparr>lastIndex := 0\<rparr>) searchableText of (found, r') \<Rightarrow> (found, Some r')))"

fun filterLoop :: "regexp option \<Rightarrow> transaction list \<Rightarrow> transaction list \<times> regexp option" where
  "filterLoop rx [] = ([], rx)"
| "filterLoop rx (t # ts) =
     (case matchesSearch t rx of (keep, rx') \<Rightarrow>
        (case filterLoop rx' ts of (rest, rx'') \<Rightarrow> (if keep then t # rest else rest, rx'')))"

definition filterBySearch :: "transaction list \<Rightarrow> regexp option \<Rightarrow> transaction list \<times> regexp option" where
  "filterBySearch ts rx = (case rx of None \<Rightarrow> (ts, None) | Some r \<Rightarrow> filterLoop (Some r) ts)"

section \<open>Examples\<close>

text \<open>
  A host for the examples. Its engine reads a pattern without metacharacters as the
  literal text to find, case-sensitively, and rejects the unterminated group \<open>(\<close>. Its
  time value of a date \<open>YYYY-MM-DD\<close> is the number \<open>YYYYMMDD\<close>, which orders the dates as
  their time values do. Its addition is the exact one, as floating-point addition is on
  the small whole amounts of the examples.
\<close>

definition literal :: "string \<Rightarrow> string \<Rightarrow> nat \<Rightarrow> nat option" where
  "literal pat s p = (if take (length pat) (drop p s) = pat then Some (length pat) else None)"

definition exampleHost :: host where
  "exampleHost =
     \<lparr>currentYear = 2025,
      generateId = (\<lambda>n. ''txn_new'' @ string_of_nat n),
      toISOString = (\<lambda>n. ''2025-09-16T08:30:00.000Z''),
      compilePattern = (\<lambda>pattern flags.
         if pattern = ''('' then Inl ''Invalid regular expression: /(/: Unterminated group''
         else Inr (literal pattern)),
      probeTime = (\<lambda>pattern flags. 0),
      dateValue = (\<lambda>s. if matches PATTERNS_date s then Some (real (digitsVal (filter isDigit s))) else None),
      localeCompare = (\<lambda>a b. 0),
      numberAdd = (\<lambda>a b. a + b)\<rparr>"

definition emptyState :: state where
  "emptyState =
     \<lparr>transactions = [], categories = [],
      settings = DEFAULT_SETTINGS,
      ui = \<lparr>currentSection = ''dashboard'', searchQuery = [], searchRegex = None,
            sortBy = ''date-desc'', categoryFilter = [], editingId = None, isLoading = False\<rparr>\<rparr>"

text \<open>Storage whose quota is exhausted: every \<^verbatim>\<open>setItem\<close> throws.\<close>

definition fullStorage :: storage where
  "fullStorage = \<lparr>transactionsItem = None, settingsItem = None, categoriesItem = None, writable = False\<rparr>"

definition coffee :: "string \<Rightarrow> transaction" where
  "coffee i =
     \<lparr>description = ''coffee'', amount = 5, date = ''2025-09-15'', category = ''Food'',
      id' = JStr i, createdAt = JStr ''2025-09-15T10:00:00.000Z'',
      updatedAt = JStr ''2025-09-15T10:00:00.000Z''\<rparr>"




text \<open>Three records described \<open>coffee\<close>, and the search pattern \<open>coffee\<close> set with the \<^verbatim>\<open>g\<close> flag alone.\<close>

definition threeCoffees :: state where
  "threeCoffees = snd (setSearchQuery exampleHost
     (emptyState\<lparr>transactions := [coffee ''1'', coffee ''2'', coffee ''3'']\<rparr>) ''coffee'' False)"

section \<open>The notions of the specification\<close>








text \<open>
  The summed amount of a category, as the specification words it: the amounts of the
  transactions of the category, added in the order of the list by the addition of the host.
\<close>

definition categorySum :: "host \<Rightarrow> transaction list \<Rightarrow> string \<Rightarrow> real" where
  "categorySum h ts c = foldl (numberAdd h) 0 (map amount (filter (\<lambda>t. category t = c) ts))"




subsection \<open>Observers of the highlighter's result\<close>

text \<open>
  The observers of the highlighter's result. \<open>stripMarks\<close> deletes the emphasis markers
  \<open><mark>\<close> and \<open></mark>\<close>. \<open>wellEscaped\<close> holds of a text with no \<open><\<close> and no \<open>>\<close> in
  which every \<open>&\<close> starts one of the entities that the escaping writes. \<open>safeMarkup\<close> is
  the same requirement on a text with markers: outside the markers there is no \<open><\<close>, no
  \<open>>\<close>, and no \<open>&\<close> that does not start an entity.
\<close>

definition startsEntity :: "string \<Rightarrow> bool" where
  "startsEntity cs = list_ex (\<lambda>e. take (length e) cs = e) [''amp;'', ''lt;'', ''gt;'', ''nbsp;'']"

definition plainChar :: "char \<Rightarrow> string \<Rightarrow> bool" where
  "plainChar c cs = (if c = CHR ''&'' then startsEntity cs else c \<noteq> CHR ''<'' \<and> c \<noteq> CHR ''>'')"

fun wellEscaped :: "string \<Rightarrow> bool" where
  "wellEscaped [] = True"
| "wellEscaped (c # cs) = (plainChar c cs \<and> wellEscaped cs)"

fun stripMarks :: "string \<Rightarrow> string" where
  "stripMarks [] = []"
| "stripMarks (c # cs) =
     (if take 6 (c # cs) = ''<mark>'' then stripMarks (drop 5 cs)
      else if take 7 (c # cs) = ''</mark>'' then stripMarks (drop 6 cs)
      else c # stripMarks cs)"

fun safeMarkup :: "string \<Rightarrow> bool" where
  "safeMarkup [] = True"
| "safeMarkup (c # cs) =
     (if take 6 (c # cs) = ''<mark>'' then safeMarkup (drop 5 cs)
      else if take 7 (c # cs) = ''</mark>'' then safeMarkup (drop 6 cs)
      else plainChar c cs \<and> safeMarkup cs)"

text \<open>\<open>marksOnly\<close>: every \<open><\<close> and \<open>>\<close> of the text belongs to a marker.\<close>

fun marksOnly :: "string \<Rightarrow> bool" where
  "marksOnly [] = True"
| "marksOnly (c # cs) =
     (if take 6 (c # cs) = ''<mark>'' then marksOnly (drop 5 cs)
      else if take 7 (c # cs) = ''</mark>'' then marksOnly (drop 6 cs)
      else c \<noteq> CHR ''<'' \<and> c \<noteq> CHR ''>'' \<and> marksOnly cs)"

section \<open>Proofs: regular expressions\<close>

lemma conc_nil_iff: "[] \<in> conc A B \<longleftrightarrow> [] \<in> A \<and> [] \<in> B"
  by (auto simp: conc_def)

lemma nullable_iff: "nullable r \<longleftrightarrow> [] \<in> lang r"
  by (induction r) (auto simp: conc_nil_iff intro: star.star_nil)

lemma conc_cons_iff:
  "c # w \<in> conc A B \<longleftrightarrow> (\<exists>u v. w = u @ v \<and> c # u \<in> A \<and> v \<in> B) \<or> ([] \<in> A \<and> c # w \<in> B)"
  unfolding conc_def
  by (auto simp: Cons_eq_append_conv)

lemma star_cons_elim:
  assumes "x \<in> star A" "x = c # w"
  shows "\<exists>u v. w = u @ v \<and> c # u \<in> A \<and> v \<in> star A"
  using assms
proof (induction arbitrary: w rule: star.induct)
  case star_nil
  then show ?case by simp
next
  case (star_app u v)
  show ?case
  proof (cases u)
    case Nil
    with star_app show ?thesis by simp
  next
    case (Cons a u')
    with star_app.prems have "a = c" "w = u' @ v" by simp_all
    with Cons star_app.hyps show ?thesis by blast
  qed
qed

lemma star_cons_iff:
  "c # w \<in> star A \<longleftrightarrow> (\<exists>u v. w = u @ v \<and> c # u \<in> A \<and> v \<in> star A)"
proof
  assume "c # w \<in> star A"
  then show "\<exists>u v. w = u @ v \<and> c # u \<in> A \<and> v \<in> star A"
    using star_cons_elim by blast
next
  assume "\<exists>u v. w = u @ v \<and> c # u \<in> A \<and> v \<in> star A"
  then obtain u v where "w = u @ v" "c # u \<in> A" "v \<in> star A" by blast
  then show "c # w \<in> star A"
    using star.star_app [of "c # u" A v] by simp
qed

lemma lang_deriv: "w \<in> lang (deriv c r) \<longleftrightarrow> c # w \<in> lang r"
proof (induction r arbitrary: w)
  case (Seq r1 r2)
  then show ?case
    by (auto simp: conc_cons_iff nullable_iff) (auto simp: conc_def)
next
  case (Star r)
  then show ?case
    by (auto simp: star_cons_iff) (auto simp: conc_def)
qed auto

lemma matches_iff: "matches r s \<longleftrightarrow> s \<in> lang r"
  by (induction s arbitrary: r) (simp_all add: nullable_iff lang_deriv)

lemma star_atom: "s \<in> star {[c] | c. P c} \<longleftrightarrow> list_all P s"
proof
  assume "s \<in> star {[c] | c. P c}"
  then show "list_all P s"
    by (induction rule: star.induct) auto
next
  assume "list_all P s"
  then show "s \<in> star {[c] | c. P c}"
  proof (induction s)
    case Nil
    show ?case by (rule star.star_nil)
  next
    case (Cons a s)
    then have "[a] \<in> {[c] | c. P c}" "s \<in> star {[c] | c. P c}" by auto
    then have "[a] @ s \<in> star {[c] | c. P c}" by (rule star.star_app)
    then show ?case by simp
  qed
qed

lemma in_lang_Seq: "s \<in> lang (Seq r1 r2) \<longleftrightarrow> (\<exists>u v. s = u @ v \<and> u \<in> lang r1 \<and> v \<in> lang r2)"
  by (auto simp: conc_def)

lemma in_lang_Atom: "s \<in> lang (Atom P) \<longleftrightarrow> (\<exists>c. s = [c] \<and> P c)"
  by auto

lemma in_lang_Seq_Atom: "s \<in> lang (Seq (Atom P) r) \<longleftrightarrow> (\<exists>c t. s = c # t \<and> P c \<and> t \<in> lang r)"
proof
  assume "s \<in> lang (Seq (Atom P) r)"
  then obtain u v where "s = u @ v" "u \<in> lang (Atom P)" "v \<in> lang r"
    unfolding in_lang_Seq by blast
  then show "\<exists>c t. s = c # t \<and> P c \<and> t \<in> lang r"
    unfolding in_lang_Atom by auto
next
  assume "\<exists>c t. s = c # t \<and> P c \<and> t \<in> lang r"
  then obtain c t where "s = [c] @ t" "P c" "t \<in> lang r" by auto
  moreover have "[c] \<in> lang (Atom P)" using \<open>P c\<close> unfolding in_lang_Atom by blast
  ultimately show "s \<in> lang (Seq (Atom P) r)" unfolding in_lang_Seq by blast
qed

lemma in_lang_Alt: "s \<in> lang (Alt r1 r2) \<longleftrightarrow> s \<in> lang r1 \<or> s \<in> lang r2"
  by simp

lemma in_lang_Opt: "s \<in> lang (Opt r) \<longleftrightarrow> s \<in> lang r \<or> s = []"
  by (auto simp: Opt_def)

lemma in_lang_Chr: "s \<in> lang (Chr c) \<longleftrightarrow> s = [c]"
  by (auto simp: Chr_def)

lemma in_lang_Seq_Chr: "s \<in> lang (Seq (Chr c) r) \<longleftrightarrow> (\<exists>t. s = c # t \<and> t \<in> lang r)"
  unfolding Chr_def in_lang_Seq_Atom by auto

lemma in_lang_Star_Atom: "s \<in> lang (Star (Atom P)) \<longleftrightarrow> list_all P s"
  using star_atom [of s P] by simp

lemmas in_lang = in_lang_Seq_Chr in_lang_Seq_Atom in_lang_Star_Atom in_lang_Chr in_lang_Atom
  in_lang_Opt in_lang_Alt

lemma lang_amount_int:
  "ip \<in> lang (Alt (Chr CHR ''0'') (Seq (Atom isNonZeroDigit) (Star (Atom isDigit)))) \<longleftrightarrow>
     (ip = ''0'' \<or> (\<exists>c ds. ip = c # ds \<and> isNonZeroDigit c \<and> list_all isDigit ds))"
  by (simp only: in_lang)

lemma lang_amount_frac:
  "fp \<in> lang (Opt (Seq (Chr CHR ''.'') (Seq (Atom isDigit) (Opt (Atom isDigit))))) \<longleftrightarrow>
     (fp = [] \<or> (\<exists>d1. isDigit d1 \<and> (fp = [CHR ''.'', d1] \<or> (\<exists>d2. isDigit d2 \<and> fp = [CHR ''.'', d1, d2]))))"
  unfolding in_lang by auto

lemma lang_amount: "s \<in> lang PATTERNS_amount \<longleftrightarrow> (\<exists>ip fp. s = ip @ fp \<and> amount_parts ip fp)"
  unfolding PATTERNS_amount_def in_lang_Seq lang_amount_int lang_amount_frac amount_parts_def ..

section \<open>Proofs: validateAmount\<close>

lemma isNonZeroDigit_iff: "isNonZeroDigit c \<longleftrightarrow> isDigit c \<and> c \<noteq> CHR ''0''"
  by (auto simp: isNonZeroDigit_def isDigit_def)

lemma isDigit_not_dot: "isDigit c \<Longrightarrow> c \<noteq> CHR ''.''"
  by (auto simp: isDigit_def)

lemma isDigit_not_space: "isDigit c \<Longrightarrow> \<not> isWhiteSpace c"
  by (auto simp: isDigit_def isWhiteSpace_def)

lemma isDigit_not_sign: "isDigit c \<Longrightarrow> c \<noteq> CHR ''-'' \<and> c \<noteq> CHR ''+''"
  by (auto simp: isDigit_def)

lemma isDigit_zero: "isDigit CHR ''0''"
  by (simp add: isDigit_def)

lemma parts_digits: "amount_parts ip fp \<Longrightarrow> ip \<noteq> [] \<and> list_all isDigit ip"
  by (auto simp: amount_parts_def isNonZeroDigit_iff isDigit_zero)

lemma shape_of_parts:
  assumes "amount_parts ip fp"
  shows "amount_shape (ip @ fp)"
proof -
  have d: "\<forall>c \<in> set ip. c \<noteq> CHR ''.''"
    using parts_digits [OF assms] isDigit_not_dot by (auto simp: list_all_iff)
  have fp: "fp = [] \<or> hd fp = CHR ''.''"
    using assms by (auto simp: amount_parts_def)
  have tw: "takeWhile (\<lambda>c. c \<noteq> CHR ''.'') (ip @ fp) = ip"
    using d fp by (cases fp) (auto simp: takeWhile_append2 takeWhile_eq_all_conv)
  have dw: "dropWhile (\<lambda>c. c \<noteq> CHR ''.'') (ip @ fp) = fp"
    using d fp by (cases fp) (auto simp: dropWhile_append2 dropWhile_eq_Nil_conv)
  have ipok: "integer_part ip"
    using assms by (auto simp: amount_parts_def integer_part_def isNonZeroDigit_iff isDigit_zero)
  have fpok: "fp = [] \<or> ((length (tl fp) = 1 \<or> length (tl fp) = 2) \<and> list_all isDigit (tl fp))"
    using assms by (auto simp: amount_parts_def)
  show ?thesis
    unfolding amount_shape_def Let_def tw dw using ipok fpok by simp
qed

lemma parts_of_shape:
  assumes "amount_shape s"
  shows "\<exists>ip fp. s = ip @ fp \<and> amount_parts ip fp"
proof -
  define ip where "ip = takeWhile (\<lambda>c. c \<noteq> CHR ''.'') s"
  define fp where "fp = dropWhile (\<lambda>c. c \<noteq> CHR ''.'') s"
  have s: "s = ip @ fp" by (simp add: ip_def fp_def)
  have ipok: "integer_part ip" and
    fpok: "fp = [] \<or> ((length (tl fp) = 1 \<or> length (tl fp) = 2) \<and> list_all isDigit (tl fp))"
    using assms by (simp_all add: amount_shape_def Let_def ip_def fp_def)
  have hd: "fp \<noteq> [] \<Longrightarrow> hd fp = CHR ''.''"
    using hd_dropWhile [of "\<lambda>c. c \<noteq> CHR ''.''" s] by (simp add: fp_def)
  have ip': "ip = ''0'' \<or> (\<exists>c ds. ip = c # ds \<and> isNonZeroDigit c \<and> list_all isDigit ds)"
    using ipok by (cases ip) (auto simp: integer_part_def isNonZeroDigit_iff)
  have fp': "fp = [] \<or> (\<exists>d1. isDigit d1 \<and> (fp = [CHR ''.'', d1] \<or> (\<exists>d2. isDigit d2 \<and> fp = [CHR ''.'', d1, d2])))"
  proof (cases fp)
    case Nil
    then show ?thesis by simp
  next
    case (Cons a r)
    with hd have a: "a = CHR ''.''" by simp
    from fpok Cons have r: "(length r = 1 \<or> length r = 2) \<and> list_all isDigit r" by simp
    then show ?thesis
      using Cons a by (cases r; cases "tl r"; cases "tl (tl r)") auto
  qed
  show ?thesis using s ip' fp' unfolding amount_parts_def by blast
qed

lemma matches_amount_iff: "matches PATTERNS_amount s \<longleftrightarrow> amount_shape s"
proof
  assume "matches PATTERNS_amount s"
  then have "s \<in> lang PATTERNS_amount" by (simp only: matches_iff)
  then obtain ip fp where "s = ip @ fp" "amount_parts ip fp"
    unfolding lang_amount by blast
  then show "amount_shape s" using shape_of_parts by simp
next
  assume "amount_shape s"
  then have "s \<in> lang PATTERNS_amount"
    unfolding lang_amount by (rule parts_of_shape)
  then show "matches PATTERNS_amount s" by (simp only: matches_iff)
qed

lemma parseFloat_unsigned:
  assumes "isDigit c"
  shows "\<exists>x. parseFloat (c # r) = Some x \<and> 0 \<le> x"
proof -
  have ws: "\<not> isWhiteSpace c" and sg: "c \<noteq> CHR ''-''" "c \<noteq> CHR ''+''"
    using assms isDigit_not_space isDigit_not_sign by auto
  show ?thesis
    using assms ws sg by (simp add: parseFloat_def Let_def)
qed

lemma shape_hd_digit: "amount_shape s \<Longrightarrow> \<exists>c r. s = c # r \<and> isDigit c"
proof -
  assume "amount_shape s"
  then obtain ip fp where "s = ip @ fp" "amount_parts ip fp" using parts_of_shape by blast
  then show ?thesis using parts_digits [of ip fp] by (cases ip) auto
qed

lemmas amount_eval = validateAmount_def trim_def isWhiteSpace_def PATTERNS_amount_def Chr_def Opt_def
  isDigit_def isNonZeroDigit_def parseFloat_def Let_def num_lt_def num_gt_def ok_def fail_def
  digitsVal_def digitVal_def amount_shape_def integer_part_def

lemma trim_Nil: "trim [] = []"
  by (simp add: trim_def)

lemma validateAmount_shape_cases:
  assumes "amount_shape (trim v)"
  obtains x where "parseFloat (trim v) = Some x" "0 \<le> x" "v \<noteq> []" "trim v \<noteq> []"
    "matches PATTERNS_amount (trim v)"
proof -
  from assms obtain c r where cr: "trim v = c # r" "isDigit c"
    using shape_hd_digit by blast
  then obtain x where "parseFloat (trim v) = Some x" "0 \<le> x"
    using parseFloat_unsigned [of c r] by auto
  moreover have "v \<noteq> []" using cr trim_Nil by auto
  moreover have "trim v \<noteq> []" using cr by simp
  moreover have "matches PATTERNS_amount (trim v)" using assms by (simp only: matches_amount_iff)
  ultimately show ?thesis using that by blast
qed

lemma validateAmount_valid_iff:
  "valid (validateAmount v) \<longleftrightarrow>
     amount_shape (trim v) \<and> (\<exists>x. parseFloat (trim v) = Some x \<and> x \<le> 99999999 / 100)"
proof (cases "amount_shape (trim v)")
  case True
  then obtain x where x: "parseFloat (trim v) = Some x" "0 \<le> x" "v \<noteq> []" "trim v \<noteq> []"
    "matches PATTERNS_amount (trim v)"
    by (rule validateAmount_shape_cases)
  then show ?thesis
    using True by (auto simp: validateAmount_def Let_def num_lt_def num_gt_def ok_def fail_def)
next
  case False
  then have "\<not> matches PATTERNS_amount (trim v)" by (simp add: matches_amount_iff)
  then show ?thesis
    using False by (simp add: validateAmount_def Let_def fail_def)
qed

lemma validateAmount_not_negative:
  "error (validateAmount v) \<noteq> Some ''Amount cannot be negative''"
proof (cases "amount_shape (trim v)")
  case True
  then obtain x where x: "parseFloat (trim v) = Some x" "0 \<le> x" "v \<noteq> []" "trim v \<noteq> []"
    "matches PATTERNS_amount (trim v)"
    by (rule validateAmount_shape_cases)
  then show ?thesis
    by (simp add: validateAmount_def Let_def num_lt_def num_gt_def ok_def fail_def)
next
  case False
  then have "\<not> matches PATTERNS_amount (trim v)" by (simp add: matches_amount_iff)
  then show ?thesis
    by (simp add: validateAmount_def Let_def fail_def)
qed

lemma pattern_parses_nonneg:
  "matches PATTERNS_amount t \<Longrightarrow> \<exists>x. parseFloat t = Some x \<and> 0 \<le> x"
proof -
  assume "matches PATTERNS_amount t"
  then have "amount_shape t" by (simp only: matches_amount_iff)
  then obtain c r where "t = c # r" "isDigit c" using shape_hd_digit by blast
  then show ?thesis using parseFloat_unsigned by blast
qed

section \<open>Claims about validateAmount\<close>

text \<open>
  C9, as stated, fails: \<open>validateAmount\<close> trims its argument before the pattern test, so
  a string with white space around an amount is accepted although it is not itself of the
  amount shape.
\<close>

theorem validateAmount_untrimmed_counterexample:
  "valid (validateAmount '' 12.50'') \<and> \<not> amount_shape '' 12.50''"
  by (simp add: amount_eval)

text \<open>
  C9 (amended): \<open>validateAmount\<close> accepts exactly the strings whose white-space-trimmed
  form is zero or an integer with a non-zero leading digit, optionally followed by a dot
  and one or two decimal digits, and whose parsed value is at most 999999.99. In
  particular \<open>12.50\<close> is valid, while \<open>01\<close>, \<open>.50\<close>, \<open>12.999\<close> and \<open>-5\<close> are invalid.
\<close>

theorem validateAmount_accepts_trimmed_shape:
  "(valid (validateAmount v) \<longleftrightarrow>
      amount_shape (trim v) \<and> (\<exists>x. parseFloat (trim v) = Some x \<and> x \<le> 99999999 / 100)) \<and>
   valid (validateAmount ''12.50'') \<and>
   \<not> valid (validateAmount ''01'') \<and>
   \<not> valid (validateAmount ''.50'') \<and>
   \<not> valid (validateAmount ''12.999'') \<and>
   \<not> valid (validateAmount ''-5'')"
proof -
  have "valid (validateAmount ''12.50'')" by (simp add: amount_eval)
  moreover have "\<not> valid (validateAmount ''01'')" by (simp add: amount_eval)
  moreover have "\<not> valid (validateAmount ''.50'')" by (simp add: amount_eval)
  moreover have "\<not> valid (validateAmount ''12.999'')" by (simp add: amount_eval)
  moreover have "\<not> valid (validateAmount ''-5'')" by (simp add: amount_eval)
  ultimately show ?thesis using validateAmount_valid_iff [of v] by blast
qed

theorem validateAmount_accepts_trimmed_shape_witness:
  "valid (validateAmount '' 7.5 '') \<and> amount_shape (trim '' 7.5 '') \<and>
   parseFloat (trim '' 7.5 '') = Some (15 / 2) \<and>
   \<not> valid (validateAmount ''1000000'') \<and> amount_shape (trim ''1000000'')"
  using validateAmount_accepts_trimmed_shape [of "'' 7.5 ''"]
    validateAmount_accepts_trimmed_shape [of "''1000000''"]
  by (simp add: amount_eval)

text \<open>
  C10: for every input string, \<open>validateAmount\<close> never returns the error
  \<open>Amount cannot be negative\<close>: a string that passes the amount pattern, which admits no
  sign, parses to a value that is at least zero, so the branch is unreachable.
\<close>

theorem validateAmount_never_negative:
  "error (validateAmount v) \<noteq> Some ''Amount cannot be negative'' \<and>
   (matches PATTERNS_amount t \<longrightarrow> (\<exists>x. parseFloat t = Some x \<and> 0 \<le> x))"
  using validateAmount_not_negative [of v] pattern_parses_nonneg [of t] by blast

theorem validateAmount_never_negative_witness:
  "error (validateAmount ''-5'') \<noteq> Some ''Amount cannot be negative'' \<and>
   matches PATTERNS_amount ''12.50'' \<and> parseFloat ''12.50'' = Some (25 / 2) \<and>
   parseFloat ''-5'' = Some (- 5)"
  using validateAmount_never_negative [of "''-5''" "''12.50''"]
  by (simp add: amount_eval)

section \<open>Proofs: validateDescription\<close>

lemmas description_eval = validateDescription_def duplicateWord_match_def duplicateWordAt_def
  wordBoundary_def canonicalize_def PATTERNS_description_def occurs_def trim_def isWhiteSpace_def
  isWordChar_def isLetter_def isDigit_def isDot_def Opt_def fail_def ok_def










section \<open>Claims about validateDescription\<close>




section \<open>Proofs: rendering of numbers\<close>

lemma string_of_nat_digit: "n < 10 \<Longrightarrow> string_of_nat n = [digitChar n]"
  by (simp add: string_of_nat.simps)

lemma string_of_nat_more:
  "\<not> n < 10 \<Longrightarrow> string_of_nat n = string_of_nat (n div 10) @ [digitChar (n mod 10)]"
  by (subst string_of_nat.simps) simp

lemma fracDigits_done: "n = 0 \<or> f = 0 \<Longrightarrow> fracDigits n f = []"
  by (subst fracDigits.simps) simp

lemma fracDigits_more:
  "\<not> (n = 0 \<or> f = 0) \<Longrightarrow>
   fracDigits n f = digitChar (nat \<lfloor>f * 10\<rfloor>) # fracDigits (n - 1) (f * 10 - of_int \<lfloor>f * 10\<rfloor>)"
  by (subst fracDigits.simps) simp

lemmas string_eval = string_of_nat_digit string_of_nat_more fracDigits_done fracDigits_more
  digitChar_def numberToString_def

text \<open>Numbers in exponent notation and in fixed notation.\<close>

lemma numberToString_examples:
  "numberToString (10 ^ 21) = ''1e+21''"
  "numberToString (- (12345 * 10 ^ 20)) = ''-1.2345e+24''"
  "numberToString 999999999999999900000 = ''999999999999999900000''"
  "numberToString (25 / 2) = ''12.5''"
  by (simp_all add: string_eval mantissa_def)

section \<open>Proofs and claims: the mutators\<close>

lemma findIndex_Some:
  "findIndex P xs = Some k \<Longrightarrow> k < length xs \<and> P (xs ! k)"
proof (induction xs arbitrary: k)
  case Nil
  then show ?case by simp
next
  case (Cons x xs)
  then show ?case by (cases "P x") (auto simp: nth_Cons split: nat.splits)
qed

lemma map_update_same: "k < length xs \<Longrightarrow> f y = f (xs ! k) \<Longrightarrow> map f (xs[k := y]) = map f xs"
  by (simp add: map_update list_update_same_conv)

lemma storage_addTransaction_unwritable:
  assumes "\<not> writable sto"
  shows "storage_addTransaction h sto d =
     (Some \<lparr>description = description d, amount = amount d, date = date d, category = category d,
            id' = JStr (generateId h 0), createdAt = JStr (toISOString h 0),
            updatedAt = JStr (toISOString h 1)\<rparr>, sto)"
  using assms by (simp add: storage_addTransaction_def saveTransactions_def Let_def)

lemma state_addTransaction_unwritable:
  assumes "\<not> writable sto"
  shows "state_addTransaction h s sto d =
     (Some \<lparr>description = description d, amount = amount d, date = date d, category = category d,
            id' = JStr (generateId h 0), createdAt = JStr (toISOString h 0),
            updatedAt = JStr (toISOString h 1)\<rparr>,
      s\<lparr>transactions := transactions s @
          [\<lparr>description = description d, amount = amount d, date = date d, category = category d,
            id' = JStr (generateId h 0), createdAt = JStr (toISOString h 0),
            updatedAt = JStr (toISOString h 1)\<rparr>]\<rparr>,
      sto)"
  unfolding state_addTransaction_def storage_addTransaction_unwritable [OF assms] by simp

lemma state_importTransactions_eq:
  "state_importTransactions s sto ts =
     (True, s\<lparr>transactions := ts\<rparr>, if writable sto then sto\<lparr>transactionsItem := Some ts\<rparr> else sto)"
  by (simp add: state_importTransactions_def storage_importTransactions_def saveTransactions_def)

lemma state_deleteTransaction_unwritable:
  assumes "\<not> writable sto" "\<exists>t \<in> set (loadTransactions sto). id' t = JStr i"
  shows "state_deleteTransaction s sto i =
     (True, s\<lparr>transactions := filter (\<lambda>t. id' t \<noteq> JStr i) (transactions s)\<rparr>, sto)"
proof -
  have "length (filter (\<lambda>t. id' t \<noteq> JStr i) (loadTransactions sto)) \<noteq> length (loadTransactions sto)"
    using assms(2) by (metis (mono_tags, lifting) filter_id_conv length_filter_le
        order.strict_iff_order length_filter_less)
  then show ?thesis
    using assms(1)
    by (simp add: state_deleteTransaction_def storage_deleteTransaction_def saveTransactions_def Let_def)
qed

text \<open>
  C1: when the durable write fails, the mutators still change the mirror and report
  success: \<open>saveTransactions\<close> turns the failed write into the status \<open>false\<close>, which
  \<^verbatim>\<open>addTransaction\<close>, \<^verbatim>\<open>deleteTransaction\<close> and \<^verbatim>\<open>importTransactions\<close> of storage.js drop.
  With storage that cannot be written, adding a transaction returns the new record,
  appends it to the mirror and leaves the durable store as it was; deleting a stored
  transaction and importing a batch do likewise.
\<close>

theorem mutators_ignore_failed_write:
  assumes "\<not> writable sto"
  shows "(\<exists>t. state_addTransaction h s sto d = (Some t, s\<lparr>transactions := transactions s @ [t]\<rparr>, sto)) \<and>
         state_importTransactions s sto ts = (True, s\<lparr>transactions := ts\<rparr>, sto) \<and>
         ((\<exists>t \<in> set (loadTransactions sto). id' t = JStr i) \<longrightarrow>
            state_deleteTransaction s sto i =
              (True, s\<lparr>transactions := filter (\<lambda>t. id' t \<noteq> JStr i) (transactions s)\<rparr>, sto))"
  using assms state_addTransaction_unwritable [OF assms, of h s d]
    state_importTransactions_eq [of s sto ts] state_deleteTransaction_unwritable [of sto i s]
  by auto

theorem mutators_ignore_failed_write_witness:
  "\<not> writable fullStorage \<and>
   fst (state_addTransaction exampleHost emptyState fullStorage
          \<lparr>description = ''Lunch'', amount = 12, date = ''2025-09-15'', category = ''Food''\<rparr>) \<noteq> None \<and>
   length (transactions (fst (snd (state_addTransaction exampleHost emptyState fullStorage
          \<lparr>description = ''Lunch'', amount = 12, date = ''2025-09-15'', category = ''Food''\<rparr>)))) = 1 \<and>
   loadTransactions (snd (snd (state_addTransaction exampleHost emptyState fullStorage
          \<lparr>description = ''Lunch'', amount = 12, date = ''2025-09-15'', category = ''Food''\<rparr>))) = []"
proof -
  have nw: "\<not> writable fullStorage" by (simp add: fullStorage_def)
  from mutators_ignore_failed_write [OF nw, of exampleHost emptyState
      "\<lparr>description = ''Lunch'', amount = 12, date = ''2025-09-15'', category = ''Food''\<rparr>"]
  obtain t where "state_addTransaction exampleHost emptyState fullStorage
      \<lparr>description = ''Lunch'', amount = 12, date = ''2025-09-15'', category = ''Food''\<rparr> =
      (Some t, emptyState\<lparr>transactions := transactions emptyState @ [t]\<rparr>, fullStorage)"
    by blast
  then show ?thesis
    using nw by (simp add: loadTransactions_def emptyState_def fullStorage_def)
qed

lemma mergeUpdates_id:
  "u_id u = None \<or> u_id u = Some (id' old) \<Longrightarrow> id' (mergeUpdates old u now) = id' old"
  by (auto simp: mergeUpdates_def pick_def)

lemma saveTransactions_load:
  "saveTransactions sto ts = (saved, sto') \<Longrightarrow>
   loadTransactions sto' = (if writable sto then ts else loadTransactions sto)"
  by (auto simp: saveTransactions_def loadTransactions_def split: if_splits)

lemma storage_updateTransaction_Some:
  assumes "storage_updateTransaction h sto i u = (Some t', sto')"
  obtains k where "findIndex (\<lambda>t. id' t = JStr i) (loadTransactions sto) = Some k"
    and "t' = mergeUpdates (loadTransactions sto ! k) u (JStr (toISOString h 0))"
    and "loadTransactions sto' =
           (if writable sto then (loadTransactions sto)[k := t'] else loadTransactions sto)"
proof (cases "findIndex (\<lambda>t. id' t = JStr i) (loadTransactions sto)")
  case None
  then show ?thesis using assms by (simp add: storage_updateTransaction_def)
next
  case (Some k)
  let ?t = "mergeUpdates (loadTransactions sto ! k) u (JStr (toISOString h 0))"
  obtain saved sto1 where sv: "saveTransactions sto ((loadTransactions sto)[k := ?t]) = (saved, sto1)"
    by (cases "saveTransactions sto ((loadTransactions sto)[k := ?t])") auto
  have "t' = ?t" "sto' = sto1"
    using assms Some sv by (simp_all add: storage_updateTransaction_def Let_def)
  then show ?thesis
    using that [of k] Some saveTransactions_load [OF sv] by simp
qed

lemma state_updateTransaction_keeps_ids:
  assumes upd: "state_updateTransaction h s sto i u = (Some t', s', sto')"
    and uid: "u_id u = None \<or> u_id u = Some (JStr i)"
  shows "id' t' = JStr i"
    and "map id' (transactions s') = map id' (transactions s)"
    and "map id' (loadTransactions sto') = map id' (loadTransactions sto)"
    and "\<exists>old \<in> set (loadTransactions sto). id' old = JStr i \<and>
           t' = mergeUpdates old u (JStr (toISOString h 0))"
proof -
  obtain r sto1 where st: "storage_updateTransaction h sto i u = (r, sto1)"
    by (cases "storage_updateTransaction h sto i u") auto
  have r: "r = Some t'" and sto1: "sto1 = sto'"
    using upd st by (auto simp: state_updateTransaction_def split: option.splits)
  from st r sto1 have st': "storage_updateTransaction h sto i u = (Some t', sto')" by simp
  from st' obtain k where k: "findIndex (\<lambda>t. id' t = JStr i) (loadTransactions sto) = Some k"
    and t': "t' = mergeUpdates (loadTransactions sto ! k) u (JStr (toISOString h 0))"
    and ld: "loadTransactions sto' =
           (if writable sto then (loadTransactions sto)[k := t'] else loadTransactions sto)"
    by (rule storage_updateTransaction_Some)
  from findIndex_Some [OF k] have kl: "k < length (loadTransactions sto)"
    and kid: "id' (loadTransactions sto ! k) = JStr i" by simp_all
  show id: "id' t' = JStr i"
    using t' kid uid mergeUpdates_id [of u "loadTransactions sto ! k"] by simp
  show "map id' (loadTransactions sto') = map id' (loadTransactions sto)"
    using ld kl id kid by (simp add: map_update_same)
  show "\<exists>old \<in> set (loadTransactions sto). id' old = JStr i \<and>
           t' = mergeUpdates old u (JStr (toISOString h 0))"
    using kl kid t' nth_mem by blast
  show "map id' (transactions s') = map id' (transactions s)"
  proof (cases "findIndex (\<lambda>t. id' t = JStr i) (transactions s)")
    case None
    then have "s' = s" using upd st' by (simp add: state_updateTransaction_def)
    then show ?thesis by simp
  next
    case (Some j)
    then have "s' = s\<lparr>transactions := (transactions s)[j := t']\<rparr>"
      using upd st' by (simp add: state_updateTransaction_def)
    moreover from findIndex_Some [OF Some] have "j < length (transactions s)"
      "id' (transactions s ! j) = JStr i" by simp_all
    ultimately show ?thesis using id by (simp add: map_update_same)
  qed
qed

text \<open>
  C8, as stated, fails: \<^verbatim>\<open>updateTransaction\<close> spreads the whole \<^verbatim>\<open>updates\<close> object over
  the stored record, so an \<^verbatim>\<open>id\<close> key in it replaces the id.
\<close>

theorem updateTransaction_id_counterexample:
  "map id' [coffee ''a''] = [JStr ''a''] \<and>
   map id' (transactions (fst (snd (state_updateTransaction exampleHost
      (emptyState\<lparr>transactions := [coffee ''a'']\<rparr>)
      (fullStorage\<lparr>transactionsItem := Some [coffee ''a''], writable := True\<rparr>)
      ''a''
      \<lparr>u_description = None, u_amount = None, u_date = None, u_category = None,
       u_id = Some (JStr ''b''), u_createdAt = None, u_updatedAt = None\<rparr>)))) = [JStr ''b'']"
  by (simp add: state_updateTransaction_def storage_updateTransaction_def saveTransactions_def
      loadTransactions_def mergeUpdates_def pick_def emptyState_def fullStorage_def coffee_def Let_def)

text \<open>
  C8 (amended): for every stored transaction and every updates object that carries no
  \<^verbatim>\<open>id\<close> key, or carries the id it is addressed at, the id of the transaction after
  \<^verbatim>\<open>updateTransaction\<close> equals its id before the call, in the returned record, in the
  mirror and in the durable store; the returned record is the stored one merged with the
  updates, with a regenerated \<^verbatim>\<open>updatedAt\<close>.
\<close>

theorem updateTransaction_keeps_id:
  assumes "state_updateTransaction h s sto i u = (Some t', s', sto')"
    and "u_id u = None \<or> u_id u = Some (JStr i)"
  shows "id' t' = JStr i \<and>
         map id' (transactions s') = map id' (transactions s) \<and>
         map id' (loadTransactions sto') = map id' (loadTransactions sto) \<and>
         (\<exists>old \<in> set (loadTransactions sto). id' old = JStr i \<and>
            t' = mergeUpdates old u (JStr (toISOString h 0))) \<and>
         updatedAt t' = JStr (toISOString h 0)"
proof -
  have "updatedAt t' = JStr (toISOString h 0)"
    using state_updateTransaction_keeps_ids(4) [OF assms] by (auto simp: mergeUpdates_def)
  then show ?thesis
    using state_updateTransaction_keeps_ids [OF assms] by blast
qed

theorem updateTransaction_keeps_id_witness:
  "state_updateTransaction exampleHost
      (emptyState\<lparr>transactions := [coffee ''a'', coffee ''b'']\<rparr>)
      (fullStorage\<lparr>transactionsItem := Some [coffee ''a'', coffee ''b''], writable := True\<rparr>)
      ''b''
      \<lparr>u_description = Some ''tea'', u_amount = None, u_date = None, u_category = None,
       u_id = None, u_createdAt = None, u_updatedAt = None\<rparr> =
    (Some ((coffee ''b'')\<lparr>description := ''tea'', updatedAt := JStr ''2025-09-16T08:30:00.000Z''\<rparr>),
     emptyState\<lparr>transactions := [coffee ''a'', (coffee ''b'')\<lparr>description := ''tea'', updatedAt := JStr ''2025-09-16T08:30:00.000Z''\<rparr>]\<rparr>,
     fullStorage\<lparr>transactionsItem := Some [coffee ''a'', (coffee ''b'')\<lparr>description := ''tea'', updatedAt := JStr ''2025-09-16T08:30:00.000Z''\<rparr>],
                 writable := True\<rparr>) \<and>
   id' ((coffee ''b'')\<lparr>description := ''tea'', updatedAt := JStr ''2025-09-16T08:30:00.000Z''\<rparr>) = JStr ''b''"
proof -
  let ?u = "\<lparr>u_description = Some ''tea'', u_amount = None, u_date = None, u_category = None,
       u_id = None, u_createdAt = None, u_updatedAt = None\<rparr>"
  have run: "state_updateTransaction exampleHost
      (emptyState\<lparr>transactions := [coffee ''a'', coffee ''b'']\<rparr>)
      (fullStorage\<lparr>transactionsItem := Some [coffee ''a'', coffee ''b''], writable := True\<rparr>)
      ''b'' ?u =
    (Some ((coffee ''b'')\<lparr>description := ''tea'', updatedAt := JStr ''2025-09-16T08:30:00.000Z''\<rparr>),
     emptyState\<lparr>transactions := [coffee ''a'', (coffee ''b'')\<lparr>description := ''tea'', updatedAt := JStr ''2025-09-16T08:30:00.000Z''\<rparr>]\<rparr>,
     fullStorage\<lparr>transactionsItem := Some [coffee ''a'', (coffee ''b'')\<lparr>description := ''tea'', updatedAt := JStr ''2025-09-16T08:30:00.000Z''\<rparr>],
                 writable := True\<rparr>)"
    by (simp add: state_updateTransaction_def storage_updateTransaction_def saveTransactions_def
        loadTransactions_def mergeUpdates_def pick_def emptyState_def fullStorage_def coffee_def
        exampleHost_def Let_def)
  have "u_id ?u = None \<or> u_id ?u = Some (JStr ''b'')" by simp
  from updateTransaction_keeps_id [OF run this] run show ?thesis by simp
qed

section \<open>Proofs and claims: getTopCategory\<close>



















lemmas top_eval = getTopCategory_def categoryTotals_def objectEntries_def topOf_def addAmount_def
  isArrayIndex_def isDigit_def emptyState_def coffee_def categorySum_def exampleHost_def
  objectPrototypeMethods_def inheritedKey_def


text \<open>
  A category named as a method of \<^verbatim>\<open>Object.prototype\<close> gets a text as its total and is
  never the top category.
\<close>

lemma getTopCategory_inherited_name:
  "getTopCategory exampleHost
     (emptyState\<lparr>transactions := [(coffee ''a'')\<lparr>category := ''constructor'', amount := 5\<rparr>]\<rparr>) =
     Some (None, 0)"
  by (simp add: top_eval)



section \<open>Proofs and claims: validateImportData\<close>



















section \<open>Proofs and claims: getFilteredTransactions\<close>

lemmas filter_eval = getFilteredTransactions_def searchCallback_def test_def regExpExec_def
  setSearchQuery_def newRegExp_def exampleHost_def literal_def emptyState_def coffee_def
  sortTransactions_def comparator_def sortField_def sortDirection_def num_gt_def
  trim_def isWhiteSpace_def ok_def fail_def Let_def string_eval
  PATTERNS_date_def Chr_def isDigit_def isNonZeroDigit_def digitsVal_def digitVal_def

text \<open>
  C2: the search filter of \<open>getFilteredTransactions\<close> calls \<^verbatim>\<open>test\<close> on the global
  \<^verbatim>\<open>RegExp\<close> of the state without resetting \<^verbatim>\<open>lastIndex\<close>, as \<open>matchesSearch\<close> does, so
  the outcome for a record depends on the match before it. For three records described
  \<open>coffee\<close> and the pattern \<open>coffee\<close> the pipeline keeps the first and the third;
  filtering that result again, with the same pattern and no category filter, keeps only
  the third, and only the first when the pattern is compiled afresh.
\<close>

theorem getFilteredTransactions_not_idempotent:
  "searchRegex (ui threeCoffees) =
     Some \<lparr>matchAt = literal ''coffee'', global = True, lastIndex = 0\<rparr> \<and>
   fst (getFilteredTransactions exampleHost threeCoffees) = [coffee ''1'', coffee ''3''] \<and>
   fst (getFilteredTransactions exampleHost
         ((snd (getFilteredTransactions exampleHost threeCoffees))
            \<lparr>transactions := [coffee ''1'', coffee ''3'']\<rparr>)) = [coffee ''3''] \<and>
   fst (getFilteredTransactions exampleHost
         (threeCoffees\<lparr>transactions := [coffee ''1'', coffee ''3'']\<rparr>)) = [coffee ''1'']"
proof -
  have "searchRegex (ui threeCoffees) =
     Some \<lparr>matchAt = literal ''coffee'', global = True, lastIndex = 0\<rparr>"
    by (simp add: threeCoffees_def setSearchQuery_def newRegExp_def exampleHost_def trim_def
        isWhiteSpace_def emptyState_def)
  moreover have "fst (getFilteredTransactions exampleHost threeCoffees) = [coffee ''1'', coffee ''3'']"
    by (simp add: threeCoffees_def filter_eval)
  moreover have "fst (getFilteredTransactions exampleHost
         ((snd (getFilteredTransactions exampleHost threeCoffees))
            \<lparr>transactions := [coffee ''1'', coffee ''3'']\<rparr>)) = [coffee ''3'']"
    by (simp add: threeCoffees_def filter_eval)
  moreover have "fst (getFilteredTransactions exampleHost
         (threeCoffees\<lparr>transactions := [coffee ''1'', coffee ''3'']\<rparr>)) = [coffee ''1'']"
    by (simp add: threeCoffees_def filter_eval)
  ultimately show ?thesis by blast
qed

section \<open>Proofs and claims: highlight\<close>

lemma stripMarks_plain: "CHR ''<'' \<notin> set u \<Longrightarrow> stripMarks (u @ v) = u @ stripMarks v"
  by (induction u) auto

lemma stripMarks_open: "stripMarks (''<mark>'' @ v) = stripMarks v"
  by simp

lemma stripMarks_close: "stripMarks (''</mark>'' @ v) = stripMarks v"
  by simp

lemma stripMarks_marked:
  assumes "CHR ''<'' \<notin> set u" "CHR ''<'' \<notin> set w"
  shows "stripMarks (u @ (''<mark>'' @ w @ ''</mark>'') @ v) = u @ w @ stripMarks v"
proof -
  have "stripMarks (u @ (''<mark>'' @ w @ ''</mark>'') @ v) =
      u @ stripMarks (''<mark>'' @ (w @ ''</mark>'' @ v))"
    using stripMarks_plain [OF assms(1)] by simp
  also have "\<dots> = u @ stripMarks (w @ (''</mark>'' @ v))"
    by (simp only: stripMarks_open)
  also have "\<dots> = u @ w @ stripMarks (''</mark>'' @ v)"
    by (simp only: stripMarks_plain [OF assms(2)])
  also have "\<dots> = u @ w @ stripMarks v"
    by (simp only: stripMarks_close)
  finally show ?thesis .
qed

lemma find_upt_bounds:
  "List.find P [a ..< b] = Some p \<Longrightarrow> a \<le> p \<and> p < b"
proof -
  assume "List.find P [a ..< b] = Some p"
  then have "p \<in> set [a ..< b]" unfolding find_Some_iff by (metis nth_mem)
  then show ?thesis by simp
qed

lemma tile:
  assumes "pos \<le> p"
  shows "take (p - pos) (drop pos s) @ take n (drop p s) @ drop (p + n) s = drop pos s"
proof -
  have 1: "take (p - pos) (drop pos s) @ drop (p - pos) (drop pos s) = drop pos s"
    by (rule append_take_drop_id)
  have 2: "drop (p - pos) (drop pos s) = drop p s" using assms by simp
  have 3: "take n (drop p s) @ drop n (drop p s) = drop p s"
    by (rule append_take_drop_id)
  have 4: "drop n (drop p s) = drop (p + n) s" by (simp add: add.commute)
  show ?thesis using 1 3 unfolding 2 4 by simp
qed

lemma notin_take_drop: "c \<notin> set s \<Longrightarrow> c \<notin> set (take n (drop p s))"
  by (meson in_set_dropD in_set_takeD)

lemma stripMarks_replaceGlobal_gen:
  assumes "CHR ''<'' \<notin> set s" "pos \<le> li" "f = (\<lambda>match. ''<mark>'' @ match @ ''</mark>'')"
  shows "stripMarks (replaceGlobal m s f li pos) = drop pos s"
  using assms
proof (induction m s f li pos rule: replaceGlobal.induct)
  case (1 m s f li pos)
  have plain1: "CHR ''<'' \<notin> set (drop u s)" for u
    using "1.prems"(1) by (meson in_set_dropD)
  have plain2: "CHR ''<'' \<notin> set (take u (drop v s))" for u v
    using "1.prems"(1) by (meson in_set_dropD in_set_takeD)
  have rest: "stripMarks (drop pos s) = drop pos s"
    using stripMarks_plain [OF plain1, of pos "[]"] by simp
  show ?case
  proof (cases "List.find (\<lambda>p. m s p \<noteq> None) [li ..< Suc (length s)]")
    case None
    then have "replaceGlobal m s f li pos = drop pos s"
      by (subst replaceGlobal.simps) simp
    then show ?thesis using rest by simp
  next
    case (Some p)
    then have lp: "li \<le> p" using find_upt_bounds by blast
    show ?thesis
    proof (cases "m s p")
      case None
      then have "replaceGlobal m s f li pos = drop pos s"
        using Some by (subst replaceGlobal.simps) simp
      then show ?thesis using rest by simp
    next
      case Some2: (Some n)
      have le: "p + n \<le> (if n = 0 then p + 1 else p + n)" by simp
      have ih: "stripMarks (replaceGlobal m s f (if n = 0 then p + 1 else p + n) (p + n)) =
          drop (p + n) s"
        using "1.IH" [OF Some Some2 "1.prems"(1) le "1.prems"(3)] .
      have "replaceGlobal m s f li pos =
          take (p - pos) (drop pos s) @ (''<mark>'' @ take n (drop p s) @ ''</mark>'') @
          replaceGlobal m s f (if n = 0 then p + 1 else p + n) (p + n)"
        using Some Some2 "1.prems"(3) by (subst replaceGlobal.simps) simp
      then have "stripMarks (replaceGlobal m s f li pos) =
          take (p - pos) (drop pos s) @ take n (drop p s) @ drop (p + n) s"
        using stripMarks_marked [OF plain2 plain2] ih by simp
      also have "\<dots> = drop pos s" using "1.prems"(2) lp by (intro tile) simp
      finally show ?thesis .
    qed
  qed
qed

lemma stripMarks_replaceGlobal:
  assumes "CHR ''<'' \<notin> set s" "pos \<le> li"
  shows "stripMarks (replaceGlobal m s (\<lambda>match. ''<mark>'' @ match @ ''</mark>'') li pos) = drop pos s"
  using assms by (rule stripMarks_replaceGlobal_gen) simp

lemma escapeChar_plain: "CHR ''<'' \<notin> set (escapeChar c)"
  by (simp add: escapeChar_def)

lemma escapeHTML_plain: "CHR ''<'' \<notin> set (escapeHTML text)"
  by (auto simp: escapeHTML_def escapeChar_plain)

lemma wellEscaped_escapeChar: "wellEscaped (escapeChar c @ r) = wellEscaped r"
  by (simp add: escapeChar_def plainChar_def startsEntity_def)

lemma wellEscaped_escapeHTML: "wellEscaped (escapeHTML text)"
proof -
  have "wellEscaped (concat (map escapeChar text))"
    by (induction "text") (simp_all add: wellEscaped_escapeChar)
  then show ?thesis by (simp add: escapeHTML_def)
qed

lemma stripMarks_highlight: "stripMarks (fst (highlight text rx)) = escapeHTML text"
proof (cases rx)
  case None
  then show ?thesis
    using stripMarks_plain [OF escapeHTML_plain, of "text" "[]"] by (simp add: highlight_def)
next
  case (Some r)
  let ?e = "escapeHTML text"
  let ?f = "\<lambda>match :: string. ''<mark>'' @ match @ ''</mark>''"
  have plain: "CHR ''<'' \<notin> set ?e" by (rule escapeHTML_plain)
  have id: "stripMarks ?e = ?e" using stripMarks_plain [OF plain, of "[]"] by simp
  show ?thesis
  proof (cases "text = []")
    case True
    then show ?thesis using Some id by (simp add: highlight_def)
  next
    case False
    have "stripMarks (fst (replace ?e (r\<lparr>lastIndex := 0\<rparr>) ?f)) = ?e"
    proof (cases "global r")
      case True
      then show ?thesis
        using stripMarks_replaceGlobal [OF plain, of 0 0 "matchAt r"] by (simp add: replace_def)
    next
      case ng: False
      show ?thesis
      proof (cases "fst (regExpExec (r\<lparr>lastIndex := 0\<rparr>) ?e)")
        case None
        then show ?thesis using ng id
          by (cases "regExpExec (r\<lparr>lastIndex := 0\<rparr>) ?e") (simp add: replace_def)
      next
        case (Some pn)
        obtain p n where pn: "pn = (p, n)" by (cases pn) auto
        have pl: "CHR ''<'' \<notin> set (take p ?e)" "CHR ''<'' \<notin> set (take n (drop p ?e))"
          "CHR ''<'' \<notin> set (drop (p + n) ?e)"
          using plain by (meson in_set_dropD in_set_takeD)+
        have "stripMarks (take p ?e @ (''<mark>'' @ take n (drop p ?e) @ ''</mark>'') @ drop (p + n) ?e) =
            take p ?e @ take n (drop p ?e) @ stripMarks (drop (p + n) ?e)"
          using pl(1,2) by (rule stripMarks_marked)
        also have "stripMarks (drop (p + n) ?e) = drop (p + n) ?e"
          using stripMarks_plain [OF pl(3), of "[]"] by simp
        also have "take p ?e @ take n (drop p ?e) @ drop (p + n) ?e = ?e"
          using tile [of 0 p ?e n] by simp
        finally show ?thesis using ng Some pn
          by (cases "regExpExec (r\<lparr>lastIndex := 0\<rparr>) ?e") (simp add: replace_def)
      qed
    qed
    moreover obtain hl r' where rp: "replace ?e (r\<lparr>lastIndex := 0\<rparr>) ?f = (hl, r')"
      by (cases "replace ?e (r\<lparr>lastIndex := 0\<rparr>) ?f") auto
    moreover have "highlight text rx = (hl, Some r')"
      using Some False rp by (simp add: highlight_def Let_def)
    ultimately show ?thesis by simp
  qed
qed


lemma marksOnly_strip:
  "CHR ''<'' \<notin> set (stripMarks out) \<Longrightarrow> CHR ''>'' \<notin> set (stripMarks out) \<Longrightarrow> marksOnly out"
proof (induction out rule: stripMarks.induct)
  case 1
  show ?case by simp
next
  case (2 c cs)
  show ?case
  proof (cases "take 6 (c # cs) = ''<mark>''")
    case True
    then show ?thesis using 2 by simp
  next
    case nopen: False
    show ?thesis
    proof (cases "take 7 (c # cs) = ''</mark>''")
      case True
      then show ?thesis using 2 nopen by simp
    next
      case False
      then show ?thesis using 2 nopen by auto
    qed
  qed
qed

lemma escapeChar_gt: "CHR ''>'' \<notin> set (escapeChar c)"
  by (simp add: escapeChar_def)

lemma escapeHTML_gt: "CHR ''>'' \<notin> set (escapeHTML text)"
  by (auto simp: escapeHTML_def escapeChar_gt)

lemma marksOnly_highlight: "marksOnly (fst (highlight text rx))"
  by (rule marksOnly_strip) (simp_all add: stripMarks_highlight escapeHTML_plain escapeHTML_gt)

lemmas highlight_eval = highlight_def replace_def replaceGlobal.simps escapeHTML_def escapeChar_def
  literal_def plainChar_def startsEntity_def

text \<open>
  What holds of every result of \<open>highlight\<close>: it is the HTML-escaped input with emphasis
  markers inserted. Deleting the markers gives exactly \<open>escapeHTML text\<close>, in which there
  is no \<open><\<close> and no \<open>>\<close> and every \<open>&\<close> starts an entity, so every \<open><\<close> and \<open>>\<close> of the
  result belongs to a marker; with no matcher the escaped text is returned unchanged.
\<close>

lemma highlight_escapes_before_marking:
  "stripMarks (fst (highlight text rx)) = escapeHTML text \<and>
   wellEscaped (escapeHTML text) \<and>
   marksOnly (fst (highlight text rx)) \<and>
   highlight text None = (escapeHTML text, None)"
  using stripMarks_highlight [of "text" rx] wellEscaped_escapeHTML [of "text"]
    marksOnly_highlight [of "text" rx]
  by (simp add: highlight_def)

text \<open>
  C4 fails: for the text \<open>R&D\<close> and the pattern \<^verbatim>\<open>/a/g\<close>, \<open>highlight\<close> returns
  \<open>R&<mark>a</mark>mp;D\<close>. The input is escaped first, to \<open>R&amp;D\<close>, and the matcher
  then runs over the escaped text and not over the input: it finds the \<open>a\<close> of the entity
  \<open>&amp;\<close>, which is no part of the input, and the marker separates the \<open>&\<close> from the rest
  of its entity. The result holds an \<open>&\<close> that starts no entity, and emphasises a letter
  that the input does not have.
\<close>

theorem highlight_marks_inside_entity:
  "fst (highlight ''R&D'' (Some \<lparr>matchAt = literal ''a'', global = True, lastIndex = 0\<rparr>)) =
     ''R&<mark>a</mark>mp;D'' \<and>
   \<not> safeMarkup ''R&<mark>a</mark>mp;D'' \<and>
   CHR ''a'' \<notin> set ''R&D''"
  by (simp add: highlight_eval)

section \<open>Proofs and claims: compileRegex\<close>

lemma regExpExec_keeps:
  "regExpExec r s = (x, r') \<Longrightarrow> matchAt r' = matchAt r \<and> global r' = global r"
  by (auto simp: regExpExec_def split: option.splits if_splits)

lemma test_keeps:
  assumes "test r s = (b, r')"
  shows "matchAt r' = matchAt r \<and> global r' = global r"
proof -
  obtain x r2 where e: "regExpExec r s = (x, r2)" by (cases "regExpExec r s") auto
  then have "test r s = (x \<noteq> None, r2)" by (simp add: test_def)
  then have "r' = r2" using assms by simp
  then show ?thesis using regExpExec_keeps [OF e] by simp
qed

lemma compileRegex_empty:
  "input = [] \<or> trim input = [] \<Longrightarrow> compileRegex h input flags = \<lparr>error = None, regex = None\<rparr>"
  by (auto simp: compileRegex_def)

lemma compileRegex_invalid:
  assumes "trim input \<noteq> []" "compilePattern h (trim input) flags = Inl message"
  shows "compileRegex h input flags = \<lparr>error = Some (''Invalid pattern: '' @ message), regex = None\<rparr>"
proof -
  have "input \<noteq> []" using assms(1) by (auto simp: trim_def)
  then show ?thesis using assms by (simp add: compileRegex_def newRegExp_def Let_def)
qed

lemma compileRegex_probe:
  assumes "trim input \<noteq> []" "compilePattern h (trim input) flags = Inr m"
  shows "(probeTime h (trim input) flags \<le> 100 \<longrightarrow>
            error (compileRegex h input flags) = None \<and>
            (\<exists>r. regex (compileRegex h input flags) = Some r \<and> matchAt r = m \<and>
                 global r = (CHR ''g'' \<in> set flags))) \<and>
         (probeTime h (trim input) flags > 100 \<longrightarrow>
            compileRegex h input flags =
              \<lparr>error = Some ''Pattern is too complex and may cause performance issues'', regex = None\<rparr>)"
proof -
  let ?r = "\<lparr>matchAt = m, global = (CHR ''g'' \<in> set flags), lastIndex = 0\<rparr>"
  have ne: "input \<noteq> []" using assms(1) by (auto simp: trim_def)
  obtain found r' where t: "test ?r (replicate 100 CHR ''a'') = (found, r')"
    by (cases "test ?r (replicate 100 CHR ''a'')") auto
  from test_keeps [OF t] have k: "matchAt r' = m" "global r' = (CHR ''g'' \<in> set flags)" by simp_all
  have c: "compileRegex h input flags =
      (if probeTime h (trim input) flags > 100
       then \<lparr>error = Some ''Pattern is too complex and may cause performance issues'', regex = None\<rparr>
       else \<lparr>error = None, regex = Some r'\<rparr>)"
    using ne assms t by (simp add: compileRegex_def newRegExp_def Let_def)
  show ?thesis unfolding c using k by auto
qed

text \<open>
  C5: \<open>compileRegex\<close> returns success with no matcher and no error for every empty or
  white-space-only input, and with no matcher every record passes the search filter; for a
  pattern that the engine rejects it returns the rejection that carries the engine's
  message; a pattern that the engine accepts is accepted when the probe on a hundred
  \<open>a\<close> took at most 100 ms, and rejected as too complex when it took longer.
\<close>

theorem compileRegex_outcomes:
  "((input = [] \<or> trim input = []) \<longrightarrow>
      compileRegex h input flags = \<lparr>error = None, regex = None\<rparr> \<and>
      filterBySearch ts None = (ts, None) \<and> matchesSearch t None = (True, None)) \<and>
   (trim input \<noteq> [] \<and> compilePattern h (trim input) flags = Inl message \<longrightarrow>
      compileRegex h input flags =
        \<lparr>error = Some (''Invalid pattern: '' @ message), regex = None\<rparr>) \<and>
   (trim input \<noteq> [] \<and> compilePattern h (trim input) flags = Inr m \<and>
    probeTime h (trim input) flags \<le> 100 \<longrightarrow>
      error (compileRegex h input flags) = None \<and>
      (\<exists>r. regex (compileRegex h input flags) = Some r \<and> matchAt r = m \<and>
           global r = (CHR ''g'' \<in> set flags))) \<and>
   (trim input \<noteq> [] \<and> compilePattern h (trim input) flags = Inr m \<and>
    probeTime h (trim input) flags > 100 \<longrightarrow>
      compileRegex h input flags =
        \<lparr>error = Some ''Pattern is too complex and may cause performance issues'', regex = None\<rparr>)"
  using compileRegex_empty [of input h flags] compileRegex_invalid [of input h flags message]
    compileRegex_probe [of input h flags m]
  by (simp add: filterBySearch_def matchesSearch_def)

theorem compileRegex_outcomes_witness:
  "compileRegex exampleHost ''   '' ''gi'' = \<lparr>error = None, regex = None\<rparr> \<and>
   compileRegex exampleHost ''('' ''gi'' =
     \<lparr>error = Some ''Invalid pattern: Invalid regular expression: /(/: Unterminated group'',
      regex = None\<rparr> \<and>
   error (compileRegex exampleHost ''a'' ''gi'') = None \<and>
   regex (compileRegex exampleHost ''a'' ''gi'') \<noteq> None \<and>
   compileRegex (exampleHost\<lparr>probeTime := \<lambda>pattern flags. 250\<rparr>) ''(a+)+$'' ''gi'' =
     \<lparr>error = Some ''Pattern is too complex and may cause performance issues'', regex = None\<rparr>"
proof -
  have t: "trim ''   '' = []" "trim ''('' = ''(''" "trim ''a'' = ''a''" "trim ''(a+)+$'' = ''(a+)+$''"
    by (simp_all add: trim_def isWhiteSpace_def)
  have 1: "compileRegex exampleHost ''   '' ''gi'' = \<lparr>error = None, regex = None\<rparr>"
    using compileRegex_outcomes [of "''   ''" exampleHost "''gi''"] t by simp
  have 2: "compileRegex exampleHost ''('' ''gi'' =
     \<lparr>error = Some ''Invalid pattern: Invalid regular expression: /(/: Unterminated group'',
      regex = None\<rparr>"
    using compileRegex_outcomes [of "''(''" exampleHost "''gi''" _ _
        "''Invalid regular expression: /(/: Unterminated group''"] t
    by (simp add: exampleHost_def)
  have 3: "error (compileRegex exampleHost ''a'' ''gi'') = None \<and>
      regex (compileRegex exampleHost ''a'' ''gi'') \<noteq> None"
    using compileRegex_outcomes [of "''a''" exampleHost "''gi''" _ _ _ "literal ''a''"] t
    by (auto simp: exampleHost_def)
  have 4: "compileRegex (exampleHost\<lparr>probeTime := \<lambda>pattern flags. 250\<rparr>) ''(a+)+$'' ''gi'' =
     \<lparr>error = Some ''Pattern is too complex and may cause performance issues'', regex = None\<rparr>"
    using compileRegex_outcomes [of "''(a+)+$''" "exampleHost\<lparr>probeTime := \<lambda>pattern flags. 250\<rparr>"
        "''gi''" _ _ _ "literal ''(a+)+$''"] t
    by (simp add: exampleHost_def)
  show ?thesis using 1 2 3 4 by simp
qed

end
